theory Spec2Isabelle
  imports Complex_Main "HOL-Library.Sublist" "HOL-Library.Monad_Syntax" "HOL-Library.Log_Nat"
begin

section \<open>Data model\<close>

text \<open>
  The repository is one Express server, \<open>src/index.js\<close>, present in two revisions that
  follow each other in the file: lines 1-244 (called variant A here) and lines 245-503
  (variant B). Every handler is embedded once per variant where the two differ.

  A handler is a function from the collaborators it calls, the request, the per-request
  readings of the outside world (clock, random source) and the state of the stores to
  the new state and the HTTP response.

  A JavaScript \<open>Number\<close> is a double: a finite one is kept as the rational it denotes,
  beside the two infinities and \<open>NaN\<close>. The sign of zero is not kept. Object ids are kept
  in their string rendering, the one the database gives them once cast.
\<close>

datatype number = Fin rat | PosInf | NegInf | NaN

datatype ticket_type = STAG | COUPLE

datatype booking_status = PENDING | CONFIRMED | USED

text \<open>\<open>userSchema\<close> (lines 30-35, 283-288) plus the \<open>_id\<close> the database adds.\<close>

record user =
  u_id :: string
  u_name :: string
  u_email :: string
  u_phone :: string
  u_password :: string

text \<open>\<open>ticketSchema\<close> (lines 38-42) and \<open>bookingSchema\<close> (lines 44-60), as stored.\<close>

record ticket =
  t_type :: ticket_type
  t_quantity :: number
  t_price :: number

record booking =
  b_id :: string
  b_tickets :: "ticket list"
  b_totalAmount :: number
  b_name :: string
  b_email :: string
  b_phone :: string
  b_userId :: string
  b_paymentId :: string
  b_bookingId :: string
  b_status :: booking_status
  b_createdAt :: nat

text \<open>
  What a client may put into \<open>formData\<close>, and what is handed to \<open>new Booking(...)\<close>: one
  optional entry per path of \<open>bookingSchema\<close>, the implicit \<open>_id\<close> included (\<open>None\<close> is
  JavaScript's \<open>undefined\<close>). The schema drops every other key, so they are not
  represented.
\<close>

record ticket_input =
  ti_type :: "string option"
  ti_quantity :: "number option"
  ti_price :: "number option"

record form_data =
  fd_id :: "string option"
  fd_tickets :: "ticket_input list option"
  fd_totalAmount :: "number option"
  fd_name :: "string option"
  fd_email :: "string option"
  fd_phone :: "string option"
  fd_userId :: "string option"
  fd_paymentId :: "string option"
  fd_bookingId :: "string option"
  fd_status :: "string option"
  fd_createdAt :: "nat option"

text \<open>
  The body of \<open>POST /api/verify-payment\<close> (lines 82-87, 411-416). The three gateway
  fields are strings, as the gateway's checkout hands them to the client.
\<close>

record verify_request =
  razorpay_payment_id :: string
  razorpay_order_id :: string
  razorpay_signature :: string
  formData :: "form_data option"

text \<open>
  The body of the registration and login requests (lines 143, 221, 347, 369). A login
  may come without a password that is a string (\<open>None\<close>).
\<close>

record register_request =
  r_name :: string
  r_email :: string
  r_phone :: string
  r_password :: string

record login_request =
  l_email :: string
  l_password :: "string option"

text \<open>The \<open>options\<close> object sent to the gateway and the order it answers with.\<close>

record order_options =
  o_amount :: number
  o_currency :: string
  o_receipt :: string
  o_payment_capture :: nat

record gateway_order =
  g_id :: string
  g_amount :: number
  g_currency :: string

text \<open>One element of the array answered by \<open>GET /api/bookings/my-passes\<close>.\<close>

record pass =
  p_id :: string
  p_bookingId :: string
  p_ticketType :: ticket_type
  p_quantity :: number
  p_totalAmount :: number
  p_name :: string
  p_email :: string
  p_phone :: string
  p_status :: booking_status
  p_createdAt :: nat

text \<open>
  Response bodies. A user profile is a JSON object whose values are all strings, kept
  as the list of its keys and values.
\<close>

datatype body =
    Message string
  | OrderBody string number string
  | AuthBody string "(string \<times> string) list"
  | BookingBody "booking"
  | PassList "pass list"

record response =
  status :: nat
  body :: "body"

text \<open>
  The two collections of the database and, on the gateway's side, the orders it has
  been asked to create.
\<close>

record world =
  users :: "user list"
  bookings :: "booking list"
  submitted :: "order_options list"

text \<open>
  The libraries and the configuration the server is started with. None of them is code
  of the repository, so they are parameters: \<open>crypto.createHmac("sha256", key)\<close>,
  \<open>bcrypt.hash\<close> (with the salt it draws made explicit), \<open>bcrypt.compare\<close>, \<open>jwt.sign\<close>
  and \<open>jwt.verify\<close> (\<open>None\<close> when it throws; the clock is passed for the expiry check),
  and the database's cast of a string to an \<open>ObjectId\<close> (\<open>None\<close> when it does not cast,
  else the id's rendering, which is what is stored and compared). \<open>bcrypt.compare\<close>
  is given two strings; what a handler does when it has none is part of the handler.
  The gateway secret
  is taken to be configured. The database is taken to be reachable: \<open>save()\<close> and
  \<open>find()\<close> throw only for the reasons the schemas give.
\<close>

record lib =
  RAZORPAY_KEY_SECRET :: string
  env_JWT_SECRET :: "string option"
  createHmac_sha256 :: "string \<Rightarrow> string \<Rightarrow> string"
  bcrypt_hash :: "string \<Rightarrow> nat \<Rightarrow> string \<Rightarrow> string"
  bcrypt_compare :: "string \<Rightarrow> string \<Rightarrow> bool"
  jwt_sign :: "(string \<times> string) list \<Rightarrow> string \<Rightarrow> string \<Rightarrow> nat \<Rightarrow> string"
  jwt_verify :: "string \<Rightarrow> string \<Rightarrow> nat \<Rightarrow> (string \<times> string) list option"
  cast_ObjectId :: "string \<Rightarrow> string option"

text \<open>
  What one request reads from outside: \<open>Date.now()\<close>, \<open>Math.random()\<close>, the \<open>_id\<close> the
  database driver gives a new document, and the salt \<open>bcrypt.hash\<close> draws.
\<close>

record io =
  Date_now :: nat
  Math_random :: rat
  new_id :: string
  salt :: string

section \<open>Helpers of the language\<close>

text \<open>Decimal rendering of a non-negative integer, as \<open>"BN" + 42\<close> renders it.\<close>

fun dec :: "nat \<Rightarrow> string" where
  "dec n = (if n < 10 then [''0123456789'' ! n]
            else dec (n div 10) @ [''0123456789'' ! (n mod 10)])"

declare dec.simps [simp del]

text \<open>\<open>s.split(" ")\<close>: the pieces between single spaces, empty pieces included.\<close>

fun split_space :: "string \<Rightarrow> string list" where
  "split_space [] = [[]]"
| "split_space (c # cs) =
     (if c = CHR '' '' then [] # split_space cs
      else (case split_space cs of
              [] \<Rightarrow> [[c]]
            | p # ps \<Rightarrow> (c # p) # ps))"

text \<open>\<open>xs[1]\<close>, which is \<open>undefined\<close> when the array has fewer than two elements.\<close>

fun second :: "'a list \<Rightarrow> 'a option" where
  "second (x # y # ys) = Some y"
| "second ys = None"

definition ok :: "body \<Rightarrow> response" where
  "ok b = \<lparr>status = 200, body = b\<rparr>"

definition fail :: "nat \<Rightarrow> string \<Rightarrow> response" where
  "fail c m = \<lparr>status = c, body = Message m\<rparr>"

subsection \<open>Multiplication of doubles\<close>

text \<open>
  \<open>x * y\<close> on two \<open>Number\<close>s is the exact product rounded to the nearest double, ties
  to the even significand: 53 significant bits, exponents from \<open>-1022\<close> (below it the
  spacing stays \<open>2^-1074\<close>) to \<open>1023\<close>, and an infinity from \<open>2^1024\<close> on.
\<close>

definition pow2 :: "int \<Rightarrow> rat" where
  "pow2 k = (if 0 \<le> k then 2 ^ nat k else 1 / 2 ^ nat (- k))"

text \<open>The exponent \<open>e\<close> of a positive rational: \<open>2^e \<le> q < 2^(e+1)\<close>.\<close>

definition floor_log2 :: "rat \<Rightarrow> int" where
  "floor_log2 q = (if 1 \<le> q then bitlen \<lfloor>q\<rfloor> - 1 else - bitlen (\<lceil>1 / q\<rceil> - 1))"

definition round_half_even :: "rat \<Rightarrow> int" where
  "round_half_even x =
     (let f = \<lfloor>x\<rfloor>; d = x - of_int f
      in if d < 1 / 2 then f
         else if 1 / 2 < d then f + 1
         else if even f then f else f + 1)"

definition round_to_double :: "rat \<Rightarrow> number" where
  "round_to_double q =
     (if q = 0 then Fin 0
      else
        let e = max (floor_log2 \<bar>q\<bar>) (- 1022);
            ulp = pow2 (e - 52);
            r = of_int (round_half_even (q / ulp)) * ulp
        in if pow2 1024 \<le> \<bar>r\<bar> then (if 0 < q then PosInf else NegInf) else Fin r)"

fun Number_times :: "number \<Rightarrow> number \<Rightarrow> number" where
  "Number_times (Fin a) (Fin b) = round_to_double (a * b)"
| "Number_times NaN y = NaN"
| "Number_times x NaN = NaN"
| "Number_times (Fin a) PosInf = (if a = 0 then NaN else if 0 < a then PosInf else NegInf)"
| "Number_times (Fin a) NegInf = (if a = 0 then NaN else if 0 < a then NegInf else PosInf)"
| "Number_times PosInf (Fin b) = (if b = 0 then NaN else if 0 < b then PosInf else NegInf)"
| "Number_times NegInf (Fin b) = (if b = 0 then NaN else if 0 < b then NegInf else PosInf)"
| "Number_times PosInf PosInf = PosInf"
| "Number_times PosInf NegInf = NegInf"
| "Number_times NegInf PosInf = NegInf"
| "Number_times NegInf NegInf = PosInf"

declare Number_times.simps [simp del]

section \<open>Order service\<close>

text \<open>
  \<open>POST /api/create-order\<close>, lines 63-78 and, word for word the same, 325-343 (where
  line 330 carries the comment "Convert to paise"). The gateway call
  \<open>razorpay.orders.create\<close> is a parameter; \<open>None\<close> is a rejected promise. The \<open>amount\<close> of
  the body is a \<open>Number\<close>.
\<close>

definition create_order ::
  "(order_options \<Rightarrow> gateway_order option) \<Rightarrow> io \<Rightarrow> number \<Rightarrow>
     world \<Rightarrow> world \<times> response" where
  "create_order orders_create r amount w =
     (let options = \<lparr>o_amount = Number_times amount (Fin 100), o_currency = ''INR'',
                      o_receipt = ''receipt_'' @ dec (Date_now r), o_payment_capture = 1\<rparr>;
          w' = w\<lparr>submitted := submitted w @ [options]\<rparr>
      in case orders_create options of
           None \<Rightarrow> (w', fail 500 ''Error creating order'')
         | Some order \<Rightarrow> (w', ok (OrderBody (g_id order) (g_amount order) (g_currency order))))"

section \<open>Schemas\<close>

text \<open>
  The validators the schemas declare. \<open>required\<close> on a \<open>String\<close> path rejects
  \<open>undefined\<close> and the empty string; \<open>enum\<close> accepts the listed strings only.
\<close>

definition required_String :: "string option \<Rightarrow> string option" where
  "required_String v = (case v of None \<Rightarrow> None | Some s \<Rightarrow> if s = [] then None else Some s)"

definition ticket_type_enum :: "string \<Rightarrow> ticket_type option" where
  "ticket_type_enum s =
     (if s = ''STAG'' then Some STAG else if s = ''COUPLE'' then Some COUPLE else None)"

definition status_enum :: "string \<Rightarrow> booking_status option" where
  "status_enum s =
     (if s = ''PENDING'' then Some PENDING
      else if s = ''CONFIRMED'' then Some CONFIRMED
      else if s = ''USED'' then Some USED
      else None)"

text \<open>A \<open>Number\<close> path that is required: \<open>undefined\<close> is refused, and \<open>NaN\<close> does not cast.\<close>

definition required_Number :: "number option \<Rightarrow> number option" where
  "required_Number v = (case v of None \<Rightarrow> None | Some NaN \<Rightarrow> None | Some x \<Rightarrow> Some x)"

text \<open>\<open>ticketSchema\<close>, lines 38-42: all three paths are required.\<close>

definition ticketSchema :: "ticket_input \<Rightarrow> ticket option" where
  "ticketSchema t = do {
     s \<leftarrow> ti_type t;
     ty \<leftarrow> ticket_type_enum s;
     q \<leftarrow> required_Number (ti_quantity t);
     p \<leftarrow> required_Number (ti_price t);
     Some \<lparr>t_type = ty, t_quantity = q, t_price = p\<rparr>
   }"

text \<open>
  \<open>new Booking(obj)\<close> together with the validation \<open>save()\<close> runs, lines 44-60:
  \<open>_id\<close> defaults to the id the driver generates and is cast when \<open>obj\<close> brings one,
  \<open>tickets\<close> defaults to the empty array, \<open>status\<close> to \<open>"CONFIRMED"\<close>, \<open>createdAt\<close> to
  \<open>Date.now\<close>; the other paths are required, and \<open>userId\<close> is cast. \<open>None\<close> is the
  validation error that \<open>save()\<close> throws.
\<close>

definition new_Booking :: "lib \<Rightarrow> io \<Rightarrow> form_data \<Rightarrow> booking option" where
  "new_Booking L r obj = do {
     id \<leftarrow> (case fd_id obj of None \<Rightarrow> Some (new_id r) | Some i \<Rightarrow> cast_ObjectId L i);
     tickets \<leftarrow> those (map ticketSchema (case fd_tickets obj of None \<Rightarrow> [] | Some ts \<Rightarrow> ts));
     totalAmount \<leftarrow> required_Number (fd_totalAmount obj);
     name \<leftarrow> required_String (fd_name obj);
     email \<leftarrow> required_String (fd_email obj);
     phone \<leftarrow> required_String (fd_phone obj);
     userId \<leftarrow> (case fd_userId obj of None \<Rightarrow> None | Some u \<Rightarrow> cast_ObjectId L u);
     paymentId \<leftarrow> required_String (fd_paymentId obj);
     bookingId \<leftarrow> required_String (fd_bookingId obj);
     st \<leftarrow> (case fd_status obj of None \<Rightarrow> Some CONFIRMED | Some s \<Rightarrow> status_enum s);
     Some \<lparr>b_id = id, b_tickets = tickets, b_totalAmount = totalAmount,
           b_name = name, b_email = email, b_phone = phone, b_userId = userId,
           b_paymentId = paymentId, b_bookingId = bookingId, b_status = st,
           b_createdAt = (case fd_createdAt obj of None \<Rightarrow> Date_now r | Some t \<Rightarrow> t)\<rparr>
   }"

text \<open>
  The insert that ends \<open>newBooking.save()\<close>: the collection's index on \<open>_id\<close> refuses a
  document whose \<open>_id\<close> is already stored (\<open>None\<close> is the error \<open>save()\<close> throws).
\<close>

definition Booking_insert :: "booking \<Rightarrow> world \<Rightarrow> world option" where
  "Booking_insert b w =
     (if list_ex (\<lambda>stored. b_id stored = b_id b) (bookings w) then None
      else Some (w\<lparr>bookings := bookings w @ [b]\<rparr>))"

text \<open>
  \<open>user.save()\<close>. In variant A every path of \<open>userSchema\<close> is required (lines 30-35);
  in variant B none is (lines 283-288). Both declare a unique index on \<open>email\<close>.
  \<open>None\<close> is the error \<open>save()\<close> throws.
\<close>

definition User_save :: "bool \<Rightarrow> user \<Rightarrow> world \<Rightarrow> world option" where
  "User_save all_required u w =
     (if all_required \<and> (u_name u = [] \<or> u_email u = [] \<or> u_phone u = [] \<or> u_password u = [])
      then None
      else if list_ex (\<lambda>v. u_email v = u_email u) (users w) then None
      else Some (w\<lparr>users := users w @ [u]\<rparr>))"

definition User_findOne :: "string \<Rightarrow> world \<Rightarrow> user option" where
  "User_findOne email w = find (\<lambda>u. u_email u = email) (users w)"

text \<open>
  \<open>Booking.find({ userId })\<close>: the filter value is cast to an \<open>ObjectId\<close>, the query
  throws (\<open>None\<close>) when it does not cast, and the stored ids are compared with the cast
  one. An \<open>undefined\<close> filter value matches no stored booking, since \<open>userId\<close> is
  required on every one of them.
\<close>

definition Booking_find :: "lib \<Rightarrow> string option \<Rightarrow> world \<Rightarrow> booking list option" where
  "Booking_find L userId w =
     (case userId of
        None \<Rightarrow> Some []
      | Some u \<Rightarrow>
          (case cast_ObjectId L u of
             None \<Rightarrow> None
           | Some c \<Rightarrow> Some (filter (\<lambda>b. b_userId b = c) (bookings w))))"

section \<open>Payment verification service\<close>

text \<open>JavaScript's truthiness test on a value that is a string or \<open>undefined\<close>.\<close>

definition falsy :: "string option \<Rightarrow> bool" where
  "falsy v = (case v of None \<Rightarrow> True | Some s \<Rightarrow> s = [])"

text \<open>
  \<open>"BN" + Math.floor(Math.random() * 10000)\<close>, lines 104 and 429. The random number is
  a rational and this product is taken exactly, without the rounding to a double.
\<close>

definition show_int :: "int \<Rightarrow> string" where
  "show_int i = (if i < 0 then ''-'' @ dec (nat (- i)) else dec (nat i))"

definition gen_bookingId :: "io \<Rightarrow> string" where
  "gen_bookingId r = ''BN'' @ show_int \<lfloor>Math_random r * 10000\<rfloor>"

text \<open>Lines 95-98 and 419-422.\<close>

definition generated_signature :: "lib \<Rightarrow> verify_request \<Rightarrow> string" where
  "generated_signature L req =
     createHmac_sha256 L (RAZORPAY_KEY_SECRET L)
       (razorpay_order_id req @ ''|'' @ razorpay_payment_id req)"

text \<open>
  \<open>POST /api/verify-payment\<close>, variant A, lines 80-118. The object literal
  \<open>{ ...formData, paymentId: razorpay_payment_id, bookingId }\<close> is \<open>formData\<close> with the
  two later keys overwritten; every other key of \<open>formData\<close>, \<open>_id\<close> and \<open>status\<close>
  included, reaches the schema.
\<close>

definition verify_payment_A ::
  "lib \<Rightarrow> io \<Rightarrow> verify_request \<Rightarrow> world \<Rightarrow> world \<times> response" where
  "verify_payment_A L r req w =
     (case formData req of
        None \<Rightarrow> (w, fail 400 ''User ID is required'')
      | Some fd \<Rightarrow>
          if falsy (fd_userId fd) then (w, fail 400 ''User ID is required'')
          else if generated_signature L req \<noteq> razorpay_signature req
          then (w, fail 400 ''Invalid payment signature'')
          else
            let bookingId = gen_bookingId r in
            (case new_Booking L r
                    (fd\<lparr>fd_paymentId := Some (razorpay_payment_id req),
                        fd_bookingId := Some bookingId\<rparr>) of
               None \<Rightarrow> (w, fail 500 ''Error verifying payment'')
             | Some newBooking \<Rightarrow>
                 (case Booking_insert newBooking w of
                    None \<Rightarrow> (w, fail 500 ''Error verifying payment'')
                  | Some w' \<Rightarrow> (w', ok (BookingBody newBooking)))))"

text \<open>
  \<open>POST /api/verify-payment\<close>, variant B, lines 409-449. There is no guard on
  \<open>formData\<close>: reading \<open>formData.tickets\<close> of an absent \<open>formData\<close> throws inside the
  \<open>try\<close>, after the signature check. The document is built from eight named keys, so
  its \<open>_id\<close>, \<open>status\<close> and \<open>createdAt\<close> are the schema's defaults.
\<close>

definition verify_payment_B ::
  "lib \<Rightarrow> io \<Rightarrow> verify_request \<Rightarrow> world \<Rightarrow> world \<times> response" where
  "verify_payment_B L r req w =
     (if generated_signature L req \<noteq> razorpay_signature req
      then (w, fail 400 ''Invalid payment signature'')
      else
        let bookingId = gen_bookingId r in
        (case formData req of
           None \<Rightarrow> (w, fail 500 ''Error verifying payment'')
         | Some fd \<Rightarrow>
             (case new_Booking L r
                     \<lparr>fd_id = None,
                      fd_tickets = fd_tickets fd, fd_totalAmount = fd_totalAmount fd,
                      fd_name = fd_name fd, fd_email = fd_email fd, fd_phone = fd_phone fd,
                      fd_userId = fd_userId fd,
                      fd_paymentId = Some (razorpay_payment_id req),
                      fd_bookingId = Some bookingId,
                      fd_status = None, fd_createdAt = None\<rparr> of
                None \<Rightarrow> (w, fail 500 ''Error verifying payment'')
              | Some newBooking \<Rightarrow>
                  (case Booking_insert newBooking w of
                     None \<Rightarrow> (w, fail 500 ''Error verifying payment'')
                   | Some w' \<Rightarrow> (w', ok (BookingBody newBooking))))))"

section \<open>Identity service\<close>

text \<open>
  Line 15: \<open>process.env.JWT_SECRET || "your_jwt_secret"\<close>. Variant B (line 261) has no
  fallback, and \<open>jwt.sign\<close> and \<open>jwt.verify\<close> throw when the secret is missing or empty.
\<close>

definition JWT_SECRET_A :: "lib \<Rightarrow> string" where
  "JWT_SECRET_A L =
     (case env_JWT_SECRET L of
        None \<Rightarrow> ''your_jwt_secret''
      | Some s \<Rightarrow> if s = [] then ''your_jwt_secret'' else s)"

text \<open>\<open>POST /api/register\<close>, variant A, lines 141-160.\<close>

definition register_A ::
  "lib \<Rightarrow> io \<Rightarrow> register_request \<Rightarrow> world \<Rightarrow> world \<times> response" where
  "register_A L r req w =
     (case User_findOne (r_email req) w of
        Some existing \<Rightarrow> (w, fail 400 ''Email already in use'')
      | None \<Rightarrow>
          let hashedPassword = bcrypt_hash L (r_password req) 10 (salt r);
              user = \<lparr>u_id = new_id r, u_name = r_name req, u_email = r_email req,
                      u_phone = r_phone req, u_password = hashedPassword\<rparr>
          in (case User_save True user w of
                None \<Rightarrow> (w, fail 500 ''Server error'')
              | Some w' \<Rightarrow>
                  let token = jwt_sign L [(''userId'', u_id user)] (JWT_SECRET_A L) ''7d''
                                (Date_now r)
                  in (w', ok (AuthBody token
                                [(''userId'', u_id user), (''name'', r_name req),
                                 (''email'', r_email req), (''phone'', r_phone req)]))))"

text \<open>
  The JSON rendering of a stored user document, as \<open>res.json({ token, user })\<close> of
  variant B sends it (lines 360, 381): every stored path, and the version key.
\<close>

definition user_toJSON :: "user \<Rightarrow> (string \<times> string) list" where
  "user_toJSON u =
     [(''_id'', u_id u), (''name'', u_name u), (''email'', u_email u),
      (''phone'', u_phone u), (''password'', u_password u), (''__v'', ''0'')]"

text \<open>\<open>POST /register\<close>, variant B, lines 346-365.\<close>

definition register_B ::
  "lib \<Rightarrow> io \<Rightarrow> register_request \<Rightarrow> world \<Rightarrow> world \<times> response" where
  "register_B L r req w =
     (case User_findOne (r_email req) w of
        Some existing \<Rightarrow> (w, fail 400 ''User already exists'')
      | None \<Rightarrow>
          let hashedPassword = bcrypt_hash L (r_password req) 10 (salt r);
              user = \<lparr>u_id = new_id r, u_name = r_name req, u_email = r_email req,
                      u_phone = r_phone req, u_password = hashedPassword\<rparr>
          in (case User_save False user w of
                None \<Rightarrow> (w, fail 500 ''Server error'')
              | Some w' \<Rightarrow>
                  (case env_JWT_SECRET L of
                     None \<Rightarrow> (w', fail 500 ''Server error'')
                   | Some secret \<Rightarrow>
                       if secret = [] then (w', fail 500 ''Server error'')
                       else
                         let token = jwt_sign L [(''id'', u_id user)] secret ''1h'' (Date_now r)
                         in (w', \<lparr>status = 201, body = AuthBody token (user_toJSON user)\<rparr>))))"

text \<open>
  \<open>POST /api/login\<close>, variant A, lines 219-242. \<open>bcrypt.compare\<close> rejects an argument
  that is not a string; the rejection is thrown at the \<open>await\<close> of line 226 and lands in
  the \<open>catch\<close> of lines 238-241.
\<close>

definition login_A ::
  "lib \<Rightarrow> io \<Rightarrow> login_request \<Rightarrow> world \<Rightarrow> world \<times> response" where
  "login_A L r req w =
     (case User_findOne (l_email req) w of
        None \<Rightarrow> (w, fail 400 ''Invalid email or password'')
      | Some user \<Rightarrow>
          (case l_password req of
             None \<Rightarrow> (w, fail 500 ''Server error'')
           | Some password \<Rightarrow>
               let isMatch = bcrypt_compare L password (u_password user) in
               if \<not> isMatch then (w, fail 400 ''Invalid email or password'')
               else
                 let token = jwt_sign L [(''userId'', u_id user)] (JWT_SECRET_A L) ''7d''
                               (Date_now r)
                 in (w, ok (AuthBody token
                              [(''id'', u_id user), (''name'', u_name user),
                               (''email'', l_email req), (''phone'', u_phone user)]))))"

text \<open>\<open>POST /login\<close>, variant B, lines 368-386, with the same rejection at line 375.\<close>

definition login_B ::
  "lib \<Rightarrow> io \<Rightarrow> login_request \<Rightarrow> world \<Rightarrow> world \<times> response" where
  "login_B L r req w =
     (case User_findOne (l_email req) w of
        None \<Rightarrow> (w, fail 400 ''Invalid credentials'')
      | Some user \<Rightarrow>
          (case l_password req of
             None \<Rightarrow> (w, fail 500 ''Server error'')
           | Some password \<Rightarrow>
               let isMatch = bcrypt_compare L password (u_password user) in
               if \<not> isMatch then (w, fail 400 ''Invalid credentials'')
               else
                 (case env_JWT_SECRET L of
                    None \<Rightarrow> (w, fail 500 ''Server error'')
                  | Some secret \<Rightarrow>
                      if secret = [] then (w, fail 500 ''Server error'')
                      else
                        let token = jwt_sign L [(''id'', u_id user)] secret ''1h'' (Date_now r)
                        in (w, ok (AuthBody token (user_toJSON user))))))"

section \<open>Booking query service and access guard\<close>

text \<open>The callback of \<open>booking.tickets.map\<close>, lines 196-207 and 481-492.\<close>

definition booking_passes :: "booking \<Rightarrow> pass list" where
  "booking_passes booking =
     map (\<lambda>ticket.
            \<lparr>p_id = b_id booking, p_bookingId = b_bookingId booking,
             p_ticketType = t_type ticket, p_quantity = t_quantity ticket,
             p_totalAmount = Number_times (t_price ticket) (t_quantity ticket),
             p_name = b_name booking, p_email = b_email booking, p_phone = b_phone booking,
             p_status = b_status booking, p_createdAt = b_createdAt booking\<rparr>)
         (b_tickets booking)"

text \<open>\<open>bookings.map(...).flat()\<close> of variant A and \<open>bookings.flatMap(...)\<close> of variant B.\<close>

definition passes_of :: "booking list \<Rightarrow> pass list" where
  "passes_of bs = concat (map booking_passes bs)"

text \<open>\<open>authHeader.split(" ")[1]\<close>, lines 172 and 398.\<close>

definition bearer_token :: "string \<Rightarrow> string option" where
  "bearer_token authHeader = second (split_space authHeader)"

text \<open>
  \<open>GET /api/bookings/my-passes\<close>, variant A, lines 161-218, with the guard written
  into the handler. \<open>jwt.verify\<close> throws on an \<open>undefined\<close> token.
\<close>

definition my_passes_A ::
  "lib \<Rightarrow> io \<Rightarrow> string option \<Rightarrow> world \<Rightarrow> world \<times> response" where
  "my_passes_A L r authHeader w =
     (case authHeader of
        None \<Rightarrow> (w, fail 401 ''No token, authorization denied'')
      | Some h \<Rightarrow>
          if h = [] then (w, fail 401 ''No token, authorization denied'')
          else if \<not> prefix ''Bearer '' h then (w, fail 401 ''No token, authorization denied'')
          else
            (case bearer_token h of
               None \<Rightarrow> (w, fail 401 ''Token is not valid'')
             | Some token \<Rightarrow>
                 (case jwt_verify L token (JWT_SECRET_A L) (Date_now r) of
                    None \<Rightarrow> (w, fail 401 ''Token is not valid'')
                  | Some decoded \<Rightarrow>
                      let userId = map_of decoded ''userId'' in
                      (case Booking_find L userId w of
                         None \<Rightarrow> (w, fail 500 ''Error fetching passes'')
                       | Some found \<Rightarrow> (w, ok (PassList (passes_of found)))))))"

text \<open>
  The \<open>auth\<close> middleware of variant B, lines 389-406: \<open>Inl\<close> is the response it sends
  itself, \<open>Inr\<close> the \<open>req.user.id\<close> it hands to the next handler.
\<close>

definition auth :: "lib \<Rightarrow> io \<Rightarrow> string option \<Rightarrow> response + string option" where
  "auth L r authHeader =
     (case authHeader of
        None \<Rightarrow> Inl (fail 401 ''No token, authorization denied'')
      | Some h \<Rightarrow>
          if h = [] then Inl (fail 401 ''No token, authorization denied'')
          else if \<not> prefix ''Bearer '' h then Inl (fail 401 ''No token, authorization denied'')
          else
            (case bearer_token h of
               None \<Rightarrow> Inl (fail 401 ''Invalid token'')
             | Some token \<Rightarrow>
                 (case env_JWT_SECRET L of
                    None \<Rightarrow> Inl (fail 401 ''Invalid token'')
                  | Some secret \<Rightarrow>
                      if secret = [] then Inl (fail 401 ''Invalid token'')
                      else
                        (case jwt_verify L token secret (Date_now r) of
                           None \<Rightarrow> Inl (fail 401 ''Invalid token'')
                         | Some decoded \<Rightarrow> Inr (map_of decoded ''id'')))))"

text \<open>\<open>GET /api/bookings/my-passes\<close>, variant B, lines 475-500.\<close>

definition my_passes_B ::
  "lib \<Rightarrow> io \<Rightarrow> string option \<Rightarrow> world \<Rightarrow> world \<times> response" where
  "my_passes_B L r authHeader w =
     (case auth L r authHeader of
        Inl denied \<Rightarrow> (w, denied)
      | Inr userId \<Rightarrow>
          (case Booking_find L userId w of
             None \<Rightarrow> (w, fail 500 ''Error fetching passes'')
           | Some found \<Rightarrow> (w, ok (PassList (passes_of found)))))"

section \<open>Notions of the specification\<close>

text \<open>
  The sum of the \<open>totalAmount\<close>s of a list of passes, as a rational; \<open>None\<close> when one of
  them is not finite. The server never computes it: it is the quantity the
  specification compares with a booking's stored \<open>totalAmount\<close>.
\<close>

fun finite_value :: "number \<Rightarrow> rat option" where
  "finite_value (Fin q) = Some q"
| "finite_value x = None"

definition pass_total_sum :: "pass list \<Rightarrow> rat option" where
  "pass_total_sum ps = map_option sum_list (those (map (\<lambda>p. finite_value (p_totalAmount p)) ps))"

text \<open>
  Price times quantity of a ticket line as a rational, where that product is a whole
  number of magnitude at most \<open>2^53\<close>, the range in which every whole number is a
  double; \<open>None\<close> elsewhere.
\<close>

definition exact_total :: "ticket \<Rightarrow> rat option" where
  "exact_total t =
     (case t_price t of
        Fin p \<Rightarrow>
          (case t_quantity t of
             Fin q \<Rightarrow>
               if of_int \<lfloor>p * q\<rfloor> = p * q \<and> \<bar>p * q\<bar> \<le> 2 ^ 53 then Some (p * q) else None
           | _ \<Rightarrow> None)
      | _ \<Rightarrow> None)"

text \<open>
  A header "of the form \<open>Bearer <token>\<close>", read strictly: the word \<open>Bearer\<close>, one space,
  and a token that is not empty and holds no space.
\<close>

definition Bearer_form :: "string \<Rightarrow> bool" where
  "Bearer_form h =
     (prefix ''Bearer '' h \<and> drop 7 h \<noteq> [] \<and> list_all (\<lambda>c. c \<noteq> CHR '' '') (drop 7 h))"

section \<open>Sample collaborators and inputs\<close>

text \<open>
  Concrete stand-ins for the libraries and concrete requests, used only to run the
  handlers on explicit inputs. The stand-in digest, hash and token functions are not
  the real algorithms; the statements that hold for every \<open>lib\<close> do not depend on them.
\<close>

definition sample_hex :: "char \<Rightarrow> bool" where
  "sample_hex c = (c \<in> set ''0123456789abcdefABCDEF'')"

definition sample_lower :: "char \<Rightarrow> char" where
  "sample_lower c =
     (if c = CHR ''A'' then CHR ''a'' else if c = CHR ''B'' then CHR ''b''
      else if c = CHR ''C'' then CHR ''c'' else if c = CHR ''D'' then CHR ''d''
      else if c = CHR ''E'' then CHR ''e'' else if c = CHR ''F'' then CHR ''f'' else c)"

definition sample_lib :: lib where
  "sample_lib =
     \<lparr>RAZORPAY_KEY_SECRET = ''rzp_test_secret'',
      env_JWT_SECRET = Some ''jwt_test_secret'',
      createHmac_sha256 = (\<lambda>key msg. rev msg @ key),
      bcrypt_hash = (\<lambda>password rounds s. ''$2a$10$'' @ s @ rev password),
      bcrypt_compare = (\<lambda>password hash. prefix password (rev hash)),
      jwt_sign = (\<lambda>payload secret expiresIn now.
                    (case payload of [(k, v)] \<Rightarrow> k @ ''.'' @ v | _ \<Rightarrow> [])),
      jwt_verify = (\<lambda>token secret now.
                    if prefix ''userId.'' token then Some [(''userId'', drop 7 token)]
                    else if prefix ''id.'' token then Some [(''id'', drop 3 token)]
                    else None),
      cast_ObjectId = (\<lambda>s. if length s = 24 \<and> list_all sample_hex s
                            then Some (map sample_lower s) else None)\<rparr>"

definition sample_io :: io where
  "sample_io = \<lparr>Date_now = 1700, Math_random = 1 / 2,
                 new_id = ''65f0a1b2c3d4e5f6a7b8c9d0'', salt = ''N9qo8uLOickgx2ZMRZoMye''\<rparr>"

definition sample_world :: world where
  "sample_world = \<lparr>users = [], bookings = [], submitted = []\<rparr>"

text \<open>
  A form for two tickets at 500 and one at 900 that states \<open>totalAmount = 1\<close> and writes
  its \<open>userId\<close> in upper case.
\<close>

definition sample_form :: form_data where
  "sample_form =
     \<lparr>fd_id = None,
      fd_tickets = Some [\<lparr>ti_type = Some ''STAG'', ti_quantity = Some (Fin 2),
                          ti_price = Some (Fin 500)\<rparr>,
                         \<lparr>ti_type = Some ''COUPLE'', ti_quantity = Some (Fin 1),
                          ti_price = Some (Fin 900)\<rparr>],
      fd_totalAmount = Some (Fin 1),
      fd_name = Some ''Asha'', fd_email = Some ''asha@example.com'',
      fd_phone = Some ''9800000000'',
      fd_userId = Some ''65F0A1B2C3D4E5F6A7B8C9AA'',
      fd_paymentId = None, fd_bookingId = None, fd_status = None, fd_createdAt = None\<rparr>"

text \<open>A request whose signature is the stand-in digest of \<open>order_1|pay_1\<close>.\<close>

definition sample_verify :: verify_request where
  "sample_verify =
     \<lparr>razorpay_payment_id = ''pay_1'', razorpay_order_id = ''order_1'',
      razorpay_signature = ''1_yap|1_redrorzp_test_secret'',
      formData = Some sample_form\<rparr>"

text \<open>The booking that request leaves in the store, and one of another user.\<close>

definition sample_booking :: booking where
  "sample_booking =
     \<lparr>b_id = ''65f0a1b2c3d4e5f6a7b8c9d0'',
      b_tickets = [\<lparr>t_type = STAG, t_quantity = Fin 2, t_price = Fin 500\<rparr>,
                   \<lparr>t_type = COUPLE, t_quantity = Fin 1, t_price = Fin 900\<rparr>],
      b_totalAmount = Fin 1, b_name = ''Asha'', b_email = ''asha@example.com'',
      b_phone = ''9800000000'', b_userId = ''65f0a1b2c3d4e5f6a7b8c9aa'',
      b_paymentId = ''pay_1'', b_bookingId = ''BN5000'', b_status = CONFIRMED,
      b_createdAt = 1700\<rparr>"

definition sample_booking2 :: booking where
  "sample_booking2 =
     \<lparr>b_id = ''65f0a1b2c3d4e5f6a7b8c9d1'',
      b_tickets = [\<lparr>t_type = STAG, t_quantity = Fin 3, t_price = Fin 500\<rparr>],
      b_totalAmount = Fin 1500, b_name = ''Ravi'', b_email = ''ravi@example.com'',
      b_phone = ''9811111111'', b_userId = ''65f0a1b2c3d4e5f6a7b8c9bb'',
      b_paymentId = ''pay_2'', b_bookingId = ''BN42'', b_status = CONFIRMED,
      b_createdAt = 1701\<rparr>"

definition sample_pass :: "ticket_type \<Rightarrow> rat \<Rightarrow> rat \<Rightarrow> pass" where
  "sample_pass ty quantity amt =
     \<lparr>p_id = ''65f0a1b2c3d4e5f6a7b8c9d0'', p_bookingId = ''BN5000'', p_ticketType = ty,
      p_quantity = Fin quantity, p_totalAmount = Fin amt, p_name = ''Asha'',
      p_email = ''asha@example.com'', p_phone = ''9800000000'', p_status = CONFIRMED,
      p_createdAt = 1700\<rparr>"

definition sample_register :: register_request where
  "sample_register =
     \<lparr>r_name = ''Asha'', r_email = ''asha@example.com'', r_phone = ''9800000000'',
      r_password = ''hunter2''\<rparr>"

definition sample_user :: user where
  "sample_user =
     \<lparr>u_id = ''65f0a1b2c3d4e5f6a7b8c9d0'', u_name = ''Asha'', u_email = ''asha@example.com'',
      u_phone = ''9800000000'', u_password = ''$2a$10$N9qo8uLOickgx2ZMRZoMye2retnuh''\<rparr>"

text \<open>The double nearest to 19.99.\<close>

definition sample_amount :: number where
  "sample_amount = Fin (5626684784446013 / 281474976710656)"

definition sample_gateway :: "order_options \<Rightarrow> gateway_order option" where
  "sample_gateway options =
     Some \<lparr>g_id = ''order_'' @ o_receipt options, g_amount = o_amount options,
           g_currency = o_currency options\<rparr>"

section \<open>Properties\<close>

subsection \<open>Auxiliary facts\<close>

lemma split_space_hd:
  "\<exists>ps. split_space s = takeWhile (\<lambda>c. c \<noteq> CHR '' '') s # ps"
  by (induction s) auto

lemma bearer_token_of_prefix:
  assumes "prefix ''Bearer '' h"
  shows "bearer_token h = Some (takeWhile (\<lambda>c. c \<noteq> CHR '' '') (drop 7 h))"
proof -
  from assms obtain t where h: "h = ''Bearer '' @ t"
    by (auto simp: prefix_def)
  obtain ps where "split_space t = takeWhile (\<lambda>c. c \<noteq> CHR '' '') t # ps"
    using split_space_hd by blast
  then show ?thesis
    by (simp add: h bearer_token_def)
qed

lemma bearer_token_trailing:
  assumes "list_all (\<lambda>c. c \<noteq> CHR '' '') token"
  shows "bearer_token (''Bearer '' @ token @ CHR '' '' # rest) = Some token"
proof -
  have "takeWhile (\<lambda>c. c \<noteq> CHR '' '') (token @ CHR '' '' # rest) = token"
    using assms by (induction token) simp_all
  then show ?thesis
    using bearer_token_of_prefix [of "''Bearer '' @ token @ CHR '' '' # rest"] by simp
qed

lemma bearer_token_alone:
  assumes "list_all (\<lambda>c. c \<noteq> CHR '' '') token"
  shows "bearer_token (''Bearer '' @ token) = Some token"
proof -
  have "takeWhile (\<lambda>c. c \<noteq> CHR '' '') token = token"
    using assms by (induction token) simp_all
  then show ?thesis
    using bearer_token_of_prefix [of "''Bearer '' @ token"] by simp
qed



lemma new_Booking_status:
  assumes "new_Booking L r obj = Some b" "fd_status obj = None"
  shows "b_status b = CONFIRMED"
  using assms
  by (auto simp: new_Booking_def split: Option.bind_splits)

lemma new_Booking_totalAmount:
  assumes "new_Booking L r obj = Some b"
  shows "fd_totalAmount obj = Some (b_totalAmount b)"
  using assms
  by (auto simp: new_Booking_def required_Number_def split: Option.bind_splits option.splits number.splits)

lemma new_Booking_any_totalAmount:
  assumes "new_Booking L r obj = Some b" and "T \<noteq> NaN"
  shows "new_Booking L r (obj\<lparr>fd_totalAmount := Some T\<rparr>) = Some (b\<lparr>b_totalAmount := T\<rparr>)"
proof -
  have "required_Number (Some T) = Some T"
    using assms(2) by (cases T) (simp_all add: required_Number_def)
  with assms(1) show ?thesis
    by (auto simp: new_Booking_def split: Option.bind_splits)
qed


lemma findOne_registered:
  assumes "u \<in> set (users w)" "u_email u = e"
  shows "\<exists>existing. User_findOne e w = Some existing"
proof (cases "User_findOne e w")
  case None
  then show ?thesis using assms by (auto simp: User_findOne_def find_None_iff)
next
  case (Some a)
  then show ?thesis by blast
qed

lemma world_append_neq:
  "w\<lparr>bookings := bookings w @ [b]\<rparr> \<noteq> w"
proof
  assume "w\<lparr>bookings := bookings w @ [b]\<rparr> = w"
  then have "bookings (w\<lparr>bookings := bookings w @ [b]\<rparr>) = bookings w" by simp
  then show False by simp
qed

lemma world_append_inject:
  "w\<lparr>bookings := bookings w @ [b]\<rparr> = w\<lparr>bookings := bookings w @ [b']\<rparr> \<Longrightarrow> b = b'"
proof -
  assume "w\<lparr>bookings := bookings w @ [b]\<rparr> = w\<lparr>bookings := bookings w @ [b']\<rparr>"
  then have "bookings (w\<lparr>bookings := bookings w @ [b]\<rparr>) =
             bookings (w\<lparr>bookings := bookings w @ [b']\<rparr>)" by simp
  then show ?thesis by simp
qed

text \<open>
  What a handler does once the signature and the guard are behind it.
\<close>

lemma save_cases:
  "(case new_Booking L r obj of
      None \<Rightarrow> (w, fail 500 ''Error verifying payment'')
    | Some newBooking \<Rightarrow>
        (case Booking_insert newBooking w of
           None \<Rightarrow> (w, fail 500 ''Error verifying payment'')
         | Some w' \<Rightarrow> (w', ok (BookingBody newBooking)))) =
   (case new_Booking L r obj of
      None \<Rightarrow> (w, fail 500 ''Error verifying payment'')
    | Some b \<Rightarrow>
        if list_ex (\<lambda>stored. b_id stored = b_id b) (bookings w)
        then (w, fail 500 ''Error verifying payment'')
        else (w\<lparr>bookings := bookings w @ [b]\<rparr>, ok (BookingBody b)))"
  by (simp add: Booking_insert_def split: option.splits)

lemma verify_payment_A_cases:
  "verify_payment_A L r req w =
     (case formData req of
        None \<Rightarrow> (w, fail 400 ''User ID is required'')
      | Some fd \<Rightarrow>
          if falsy (fd_userId fd) then (w, fail 400 ''User ID is required'')
          else if generated_signature L req \<noteq> razorpay_signature req
          then (w, fail 400 ''Invalid payment signature'')
          else (case new_Booking L r
                       (fd\<lparr>fd_paymentId := Some (razorpay_payment_id req),
                           fd_bookingId := Some (gen_bookingId r)\<rparr>) of
                  None \<Rightarrow> (w, fail 500 ''Error verifying payment'')
                | Some b \<Rightarrow>
                    if list_ex (\<lambda>stored. b_id stored = b_id b) (bookings w)
                    then (w, fail 500 ''Error verifying payment'')
                    else (w\<lparr>bookings := bookings w @ [b]\<rparr>, ok (BookingBody b))))"
  by (simp add: verify_payment_A_def Let_def save_cases cong: option.case_cong if_cong)

lemma verify_payment_B_cases:
  "verify_payment_B L r req w =
     (if generated_signature L req \<noteq> razorpay_signature req
      then (w, fail 400 ''Invalid payment signature'')
      else
        (case formData req of
           None \<Rightarrow> (w, fail 500 ''Error verifying payment'')
         | Some fd \<Rightarrow>
             (case new_Booking L r
                     (fd\<lparr>fd_id := None,
                         fd_paymentId := Some (razorpay_payment_id req),
                         fd_bookingId := Some (gen_bookingId r),
                         fd_status := None, fd_createdAt := None\<rparr>) of
                None \<Rightarrow> (w, fail 500 ''Error verifying payment'')
              | Some b \<Rightarrow>
                  if list_ex (\<lambda>stored. b_id stored = b_id b) (bookings w)
                  then (w, fail 500 ''Error verifying payment'')
                  else (w\<lparr>bookings := bookings w @ [b]\<rparr>, ok (BookingBody b)))))"
proof -
  have eq: "\<lparr>fd_id = None, fd_tickets = fd_tickets fd, fd_totalAmount = fd_totalAmount fd,
         fd_name = fd_name fd, fd_email = fd_email fd, fd_phone = fd_phone fd,
         fd_userId = fd_userId fd, fd_paymentId = Some p, fd_bookingId = Some i,
         fd_status = None, fd_createdAt = None\<rparr> =
        fd\<lparr>fd_id := None, fd_paymentId := Some p, fd_bookingId := Some i,
           fd_status := None, fd_createdAt := None\<rparr>" for fd :: form_data and p i
    by simp
  show ?thesis
    by (simp add: verify_payment_B_def Let_def eq save_cases cong: option.case_cong if_cong)
qed

lemma verify_payment_A_any_totalAmount:
  assumes fd: "formData req = Some fd"
    and saved: "fst (verify_payment_A L r req w) = w\<lparr>bookings := bookings w @ [b]\<rparr>"
    and T: "T \<noteq> NaN"
  shows "fd_totalAmount fd = Some (b_totalAmount b) \<and>
         verify_payment_A L r (req\<lparr>formData := Some (fd\<lparr>fd_totalAmount := Some T\<rparr>)\<rparr>) w =
           (w\<lparr>bookings := bookings w @ [b\<lparr>b_totalAmount := T\<rparr>]\<rparr>,
            ok (BookingBody (b\<lparr>b_totalAmount := T\<rparr>)))"
proof -
  let ?obj = "fd\<lparr>fd_paymentId := Some (razorpay_payment_id req),
                 fd_bookingId := Some (gen_bookingId r)\<rparr>"
  from fd saved have guard: "\<not> falsy (fd_userId fd)"
    and sig: "generated_signature L req = razorpay_signature req"
    and made: "new_Booking L r ?obj = Some b"
    and fresh: "\<not> list_ex (\<lambda>stored. b_id stored = b_id b) (bookings w)"
    using world_append_neq [of w b] world_append_inject [of w]
    by (auto simp: verify_payment_A_cases split: option.splits if_splits)
  have "fd_totalAmount ?obj = Some (b_totalAmount b)"
    using made by (rule new_Booking_totalAmount)
  then have first: "fd_totalAmount fd = Some (b_totalAmount b)" by simp
  have "new_Booking L r (?obj\<lparr>fd_totalAmount := Some T\<rparr>) = Some (b\<lparr>b_totalAmount := T\<rparr>)"
    using made T by (rule new_Booking_any_totalAmount)
  moreover have "fd\<lparr>fd_totalAmount := Some T, fd_paymentId := Some (razorpay_payment_id req),
          fd_bookingId := Some (gen_bookingId r)\<rparr> = ?obj\<lparr>fd_totalAmount := Some T\<rparr>"
    by (cases fd) simp
  ultimately have "new_Booking L r
      (fd\<lparr>fd_totalAmount := Some T, fd_paymentId := Some (razorpay_payment_id req),
          fd_bookingId := Some (gen_bookingId r)\<rparr>) = Some (b\<lparr>b_totalAmount := T\<rparr>)"
    by (simp only:)
  with guard sig fresh first show ?thesis
    by (simp add: verify_payment_A_cases generated_signature_def)
qed

lemma verify_payment_B_any_totalAmount:
  assumes fd: "formData req = Some fd"
    and saved: "fst (verify_payment_B L r req w) = w\<lparr>bookings := bookings w @ [b]\<rparr>"
    and T: "T \<noteq> NaN"
  shows "fd_totalAmount fd = Some (b_totalAmount b) \<and>
         verify_payment_B L r (req\<lparr>formData := Some (fd\<lparr>fd_totalAmount := Some T\<rparr>)\<rparr>) w =
           (w\<lparr>bookings := bookings w @ [b\<lparr>b_totalAmount := T\<rparr>]\<rparr>,
            ok (BookingBody (b\<lparr>b_totalAmount := T\<rparr>)))"
proof -
  let ?obj = "fd\<lparr>fd_id := None, fd_paymentId := Some (razorpay_payment_id req),
                 fd_bookingId := Some (gen_bookingId r),
                 fd_status := None, fd_createdAt := None\<rparr>"
  from fd saved have sig: "generated_signature L req = razorpay_signature req"
    and made: "new_Booking L r ?obj = Some b"
    and fresh: "\<not> list_ex (\<lambda>stored. b_id stored = b_id b) (bookings w)"
    using world_append_neq [of w b] world_append_inject [of w]
    by (auto simp: verify_payment_B_cases split: option.splits if_splits)
  have "fd_totalAmount ?obj = Some (b_totalAmount b)"
    using made by (rule new_Booking_totalAmount)
  then have first: "fd_totalAmount fd = Some (b_totalAmount b)" by simp
  have "new_Booking L r (?obj\<lparr>fd_totalAmount := Some T\<rparr>) = Some (b\<lparr>b_totalAmount := T\<rparr>)"
    using made T by (rule new_Booking_any_totalAmount)
  moreover have "fd\<lparr>fd_totalAmount := Some T, fd_id := None,
          fd_paymentId := Some (razorpay_payment_id req),
          fd_bookingId := Some (gen_bookingId r),
          fd_status := None, fd_createdAt := None\<rparr> = ?obj\<lparr>fd_totalAmount := Some T\<rparr>"
    by (cases fd) simp
  ultimately have "new_Booking L r
      (fd\<lparr>fd_totalAmount := Some T, fd_id := None,
          fd_paymentId := Some (razorpay_payment_id req),
          fd_bookingId := Some (gen_bookingId r),
          fd_status := None, fd_createdAt := None\<rparr>) = Some (b\<lparr>b_totalAmount := T\<rparr>)"
    by (simp only:)
  with sig fresh first show ?thesis
    by (simp add: verify_payment_B_cases generated_signature_def)
qed

subsection \<open>Rounding to a double\<close>

lemma round_half_even_of_int: "round_half_even (of_int m) = m"
  by (simp add: round_half_even_def)

lemma round_half_even_near:
  assumes "of_int n - 1 / 2 < x" and "x < of_int n + 1 / 2"
  shows "round_half_even x = n"
proof (cases "of_int n \<le> x")
  case True
  then have "\<lfloor>x\<rfloor> = n" using assms(2) by (simp add: floor_eq_iff)
  then show ?thesis using assms(2) by (simp add: round_half_even_def Let_def)
next
  case False
  then have fl: "\<lfloor>x\<rfloor> = n - 1" using assms(1) by (simp add: floor_eq_iff)
  have "\<not> x - of_int (n - 1) < 1 / 2" using assms(1) by simp
  moreover have "1 / 2 < x - of_int (n - 1)" using assms(1) by simp
  ultimately show ?thesis by (simp add: round_half_even_def Let_def fl)
qed

lemma round_half_even_tie:
  assumes "x = of_int f + 1 / 2" and "even f"
  shows "round_half_even x = f"
proof -
  have "\<lfloor>x\<rfloor> = f" using assms(1) by (simp add: floor_eq_iff)
  then show ?thesis using assms by (simp add: round_half_even_def Let_def)
qed

lemma pow2_pos: "0 < pow2 k"
  by (simp add: pow2_def)

lemma pow2_neg: "e \<le> 52 \<Longrightarrow> pow2 (e - 52) = 1 / 2 ^ nat (52 - e)"
  by (cases "e = 52") (simp_all add: pow2_def)

lemma floor_log2_eq:
  assumes "0 \<le> e" and "pow2 e \<le> q" and "q < pow2 (e + 1)"
  shows "floor_log2 q = e"
proof -
  have lo: "(of_int (2 ^ nat e) :: rat) \<le> q"
    using assms(1,2) by (simp add: pow2_def)
  have hi: "q < (of_int (2 ^ nat (e + 1)) :: rat)"
    using assms(1,3) by (simp add: pow2_def)
  have "(1::rat) \<le> of_int (2 ^ nat e)" by simp
  with lo have one: "1 \<le> q" by linarith
  have m_lo: "2 ^ nat e \<le> \<lfloor>q\<rfloor>" using lo by (simp only: le_floor_iff)
  have m_hi: "\<lfloor>q\<rfloor> < 2 ^ nat (e + 1)" using hi by (simp only: floor_less_iff)
  have "bitlen \<lfloor>q\<rfloor> \<le> e + 1"
    using m_hi assms(1) by (simp add: bitlen_le_iff_power)
  moreover have "\<not> bitlen \<lfloor>q\<rfloor> \<le> e"
    using m_lo by (simp add: bitlen_le_iff_power)
  ultimately have "bitlen \<lfloor>q\<rfloor> = e + 1" by linarith
  then show ?thesis using one by (simp add: floor_log2_def)
qed

lemma round_to_double_at:
  assumes "0 \<le> e" and "pow2 e \<le> \<bar>q\<bar>" and "\<bar>q\<bar> < pow2 (e + 1)"
    and "round_half_even (q / pow2 (e - 52)) = n"
    and "\<bar>of_int n * pow2 (e - 52)\<bar> < pow2 1024"
  shows "round_to_double q = Fin (of_int n * pow2 (e - 52))"
proof -
  have "q \<noteq> 0" using assms(2) pow2_pos [of e] by auto
  moreover have "floor_log2 \<bar>q\<bar> = e" using assms(1-3) by (rule floor_log2_eq)
  moreover have "max e (- 1022) = e" using assms(1) by simp
  ultimately show ?thesis
    using assms(4,5) by (simp add: round_to_double_def Let_def)
qed

lemma round_to_double_int_small:
  assumes "\<bar>n\<bar> < 2 ^ 53"
  shows "round_to_double (of_int n) = Fin (of_int n)"
proof (cases "n = 0")
  case True
  then show ?thesis by (simp add: round_to_double_def)
next
  case False
  define e where "e = bitlen \<bar>n\<bar> - 1"
  define k where "k = nat (52 - e)"
  have pos: "0 < \<bar>n\<bar>" using False by simp
  then have "1 \<le> \<bar>n\<bar>" by linarith
  then have "(1::rat) \<le> of_int \<bar>n\<bar>" by (simp only: of_int_1_le_iff)
  then have one: "(1::rat) \<le> \<bar>of_int n\<bar>" by simp
  have fl: "floor_log2 \<bar>of_int n\<bar> = e"
    using one by (simp add: floor_log2_def e_def flip: of_int_abs)
  have "bitlen \<bar>n\<bar> \<noteq> 0" using pos by (simp add: bitlen_eq_zero_iff)
  with bitlen_nonneg [of "\<bar>n\<bar>"] have e0: "0 \<le> e" by (simp add: e_def)
  have "bitlen \<bar>n\<bar> \<le> 53" using assms by (simp add: bitlen_le_iff_power)
  then have e52: "e \<le> 52" by (simp add: e_def)
  have mx: "max e (- 1022) = e" using e0 by simp
  have ulp: "pow2 (e - 52) = 1 / 2 ^ k" using pow2_neg [OF e52] by (simp add: k_def)
  have scaled: "of_int n / pow2 (e - 52) = (of_int (n * 2 ^ k) :: rat)"
    by (simp add: ulp)
  have unscaled: "(of_int (n * 2 ^ k) :: rat) * pow2 (e - 52) = of_int n"
    by (simp add: ulp)
  have "\<bar>n\<bar> < 2 ^ 1024"
    using assms by (rule less_trans) simp
  then have small: "\<not> pow2 1024 \<le> \<bar>(of_int n :: rat)\<bar>"
    by (simp add: pow2_def flip: of_int_abs)
  show ?thesis
    using False small
    by (simp add: round_to_double_def fl mx Let_def scaled unscaled round_half_even_of_int
        del: of_int_mult of_int_power)
qed

lemma round_to_double_2_53:
  "round_to_double 9007199254740992 = Fin 9007199254740992"
  "round_to_double (- 9007199254740992) = Fin (- 9007199254740992)"
proof -
  have "round_half_even (9007199254740992 / pow2 (53 - 52)) = 4503599627370496"
    using round_half_even_of_int [of 4503599627370496] by (simp add: pow2_def)
  then show "round_to_double 9007199254740992 = Fin 9007199254740992"
    using round_to_double_at [of 53 9007199254740992 4503599627370496]
    by (simp add: pow2_def)
  have "round_half_even (- 9007199254740992 / pow2 (53 - 52)) = - 4503599627370496"
    using round_half_even_of_int [of "- 4503599627370496"] by (simp add: pow2_def)
  then show "round_to_double (- 9007199254740992) = Fin (- 9007199254740992)"
    using round_to_double_at [of 53 "- 9007199254740992" "- 4503599627370496"]
    by (simp add: pow2_def)
qed

lemma round_to_double_int:
  assumes "\<bar>n\<bar> \<le> 2 ^ 53"
  shows "round_to_double (of_int n) = Fin (of_int n)"
proof (cases "\<bar>n\<bar> < 2 ^ 53")
  case True
  then show ?thesis by (rule round_to_double_int_small)
next
  case False
  with assms have "n = 9007199254740992 \<or> n = - 9007199254740992" by auto
  then show ?thesis using round_to_double_2_53 by auto
qed

text \<open>
  A product that is a whole number of magnitude at most \<open>2^53\<close> is not rounded.
\<close>

lemma Number_times_whole:
  assumes "of_int n = a * b" and "\<bar>n\<bar> \<le> 2 ^ 53"
  shows "Number_times (Fin a) (Fin b) = Fin (a * b)"
  using round_to_double_int [OF assms(2)] assms(1)
  by (simp add: Number_times.simps)

lemma exact_total_times:
  assumes "exact_total t = Some v"
  shows "Number_times (t_price t) (t_quantity t) = Fin v"
proof -
  from assms obtain p q n where pq: "t_price t = Fin p" "t_quantity t = Fin q"
    and whole: "of_int n = p * q" and bound: "\<bar>p * q\<bar> \<le> 2 ^ 53" and v: "v = p * q"
    by (auto simp: exact_total_def split: number.splits if_splits)
  have "\<bar>(of_int n :: rat)\<bar> \<le> of_int (2 ^ 53)"
    using whole bound by simp
  then have "\<bar>n\<bar> \<le> 2 ^ 53"
    by (simp only: of_int_le_iff flip: of_int_abs)
  with whole have "Number_times (Fin p) (Fin q) = Fin (p * q)"
    by (rule Number_times_whole)
  then show ?thesis by (simp add: pq v)
qed

lemma exact_totals_times:
  "those (map exact_total ts) = Some vs \<Longrightarrow>
   map (\<lambda>t. Number_times (t_price t) (t_quantity t)) ts = map Fin vs"
proof (induction ts arbitrary: vs)
  case Nil
  then show ?case by simp
next
  case (Cons t ts)
  then show ?case
    by (auto simp: exact_total_times split: option.splits)
qed

lemma those_map_Some: "those (map Some vs) = Some vs"
  by (induction vs) simp_all

lemma booking_passes_totals:
  "map p_totalAmount (booking_passes b) =
     map (\<lambda>t. Number_times (t_price t) (t_quantity t)) (b_tickets b)"
  by (simp add: booking_passes_def)

lemma pass_total_sum_exact:
  assumes "those (map exact_total (b_tickets b)) = Some vs"
  shows "pass_total_sum (booking_passes b) = Some (sum_list vs)"
proof -
  have "map (\<lambda>p. finite_value (p_totalAmount p)) (booking_passes b) =
        map finite_value (map p_totalAmount (booking_passes b))"
    by simp
  also have "\<dots> = map finite_value (map Fin vs)"
    using exact_totals_times [OF assms] by (simp only: booking_passes_totals)
  also have "\<dots> = map (\<lambda>v. finite_value (Fin v)) vs" by simp
  finally show ?thesis
    by (simp add: pass_total_sum_def those_map_Some)
qed

subsection \<open>The samples\<close>

text \<open>
  19.99 * 100 and 94906267 * 94906267, as the engine computes them: the first lies
  between two doubles and goes to the nearer, the second lies half way between two and
  goes to the even one.
\<close>

lemma sample_product_amount:
  "Number_times (Fin (5626684784446013 / 281474976710656)) (Fin 100) =
     Fin (8791694975696895 / 4398046511104)"
proof -
  have "round_half_even (5626684784446013 / 281474976710656 * 100 / pow2 (10 - 52)) =
        8791694975696895"
    by (rule round_half_even_near) (simp_all add: pow2_def)
  then show ?thesis
    using round_to_double_at
      [of 10 "5626684784446013 / 281474976710656 * 100" 8791694975696895]
    by (simp add: Number_times.simps pow2_def)
qed

lemma sample_product_large:
  "Number_times (Fin 94906267) (Fin 94906267) = Fin 9007199515875288"
proof -
  have "round_half_even (94906267 * 94906267 / pow2 (53 - 52)) = 4503599757937644"
    by (rule round_half_even_tie) (simp_all add: pow2_def)
  then show ?thesis
    using round_to_double_at [of 53 "94906267 * 94906267" 4503599757937644]
    by (simp add: Number_times.simps pow2_def)
qed

lemma sample_products:
  "Number_times (Fin 500) (Fin 2) = Fin 1000"
  "Number_times (Fin 900) (Fin 1) = Fin 900"
  "Number_times (Fin 500) (Fin 3) = Fin 1500"
  "Number_times (Fin 499) (Fin 100) = Fin 49900"
  using Number_times_whole [of 1000 500 2] Number_times_whole [of 900 900 1]
    Number_times_whole [of 1500 500 3] Number_times_whole [of 49900 499 100]
  by simp_all

lemma sample_bearer_token:
  "bearer_token ''Bearer not.a.token'' = Some ''not.a.token''"
  by (simp add: bearer_token_def)

lemma sample_bearer_userId:
  "bearer_token ''Bearer userId.65F0A1B2C3D4E5F6A7B8C9AA'' = Some ''userId.65F0A1B2C3D4E5F6A7B8C9AA''"
  by (simp add: bearer_token_def)

lemma sample_bearer_id:
  "bearer_token ''Bearer id.65F0A1B2C3D4E5F6A7B8C9AA'' = Some ''id.65F0A1B2C3D4E5F6A7B8C9AA''"
  by (simp add: bearer_token_def)

lemma sample_bearer_trailing:
  "bearer_token ''Bearer userId.65F0A1B2C3D4E5F6A7B8C9AA trailing garbage'' =
     Some ''userId.65F0A1B2C3D4E5F6A7B8C9AA''"
  "bearer_token ''Bearer id.65F0A1B2C3D4E5F6A7B8C9AA trailing garbage'' =
     Some ''id.65F0A1B2C3D4E5F6A7B8C9AA''"
  by (simp_all add: bearer_token_def)

lemma sample_cast_ObjectId:
  "cast_ObjectId sample_lib ''65F0A1B2C3D4E5F6A7B8C9AA'' = Some ''65f0a1b2c3d4e5f6a7b8c9aa''"
  by (simp add: sample_lib_def sample_hex_def sample_lower_def)

lemma sample_passes:
  "booking_passes sample_booking = [sample_pass STAG 2 1000, sample_pass COUPLE 1 900]"
  by (simp add: booking_passes_def sample_booking_def sample_pass_def sample_products)

lemma sample_userIds:
  "b_userId sample_booking = ''65f0a1b2c3d4e5f6a7b8c9aa''"
  "b_userId sample_booking2 = ''65f0a1b2c3d4e5f6a7b8c9bb''"
  by (simp_all add: sample_booking_def sample_booking2_def)

lemma sample_jwt_verify:
  "jwt_verify sample_lib ''userId.65F0A1B2C3D4E5F6A7B8C9AA'' (JWT_SECRET_A sample_lib)
       (Date_now sample_io) = Some [(''userId'', ''65F0A1B2C3D4E5F6A7B8C9AA'')]"
  "jwt_verify sample_lib ''id.65F0A1B2C3D4E5F6A7B8C9AA'' ''jwt_test_secret''
       (Date_now sample_io) = Some [(''id'', ''65F0A1B2C3D4E5F6A7B8C9AA'')]"
  "env_JWT_SECRET sample_lib = Some ''jwt_test_secret''"
  by (simp_all add: sample_lib_def)

lemmas sample_verify_defs =
  verify_payment_A_def verify_payment_B_def generated_signature_def falsy_def
  new_Booking_def Booking_insert_def ticketSchema_def ticket_type_enum_def required_String_def
  required_Number_def status_enum_def gen_bookingId_def show_int_def dec.simps
  sample_lib_def sample_io_def sample_verify_def sample_form_def sample_world_def
  sample_booking_def sample_hex_def sample_lower_def Let_def

subsection \<open>Payment verification\<close>






text \<open>
  Variant B never reads \<open>formData.status\<close>: every booking it persists has the schema's
  default status.
\<close>

lemma verify_payment_B_status_confirmed:
  assumes "fst (verify_payment_B L r req w) = w\<lparr>bookings := bookings w @ [b]\<rparr>"
  shows "b_status b = CONFIRMED"
proof -
  from assms obtain fd where "new_Booking L r
        (fd\<lparr>fd_id := None, fd_paymentId := Some (razorpay_payment_id req),
            fd_bookingId := Some (gen_bookingId r),
            fd_status := None, fd_createdAt := None\<rparr>) = Some b"
    using world_append_neq [of w b] world_append_inject [of w]
    by (auto simp: verify_payment_B_cases split: option.splits if_splits)
  then show ?thesis
    by (rule new_Booking_status) simp
qed

text \<open>
  Claim C2 fails in variant A. The spread \<open>...formData\<close> hands a client's \<open>status\<close> to
  the schema, whose \<open>enum\<close> accepts it: the request below, with a matching signature,
  persists a booking whose status is \<open>PENDING\<close>.
\<close>

theorem verify_payment_A_persists_client_status:
  "verify_payment_A sample_lib sample_io
       (sample_verify\<lparr>formData := Some (sample_form\<lparr>fd_status := Some ''PENDING''\<rparr>)\<rparr>)
       sample_world =
     (sample_world\<lparr>bookings := [sample_booking\<lparr>b_status := PENDING\<rparr>]\<rparr>,
      \<lparr>status = 200, body = BookingBody (sample_booking\<lparr>b_status := PENDING\<rparr>)\<rparr>)"
  by (simp add: sample_verify_defs ok_def)

subsection \<open>Listing passes\<close>

text \<open>
  Claim C3, as amended. For an authenticated user the handler answers with the passes
  of the stored bookings whose \<open>userId\<close> is that user's, booking after booking in
  retrieval order; a booking with N ticket lines yields exactly N passes, in ticket
  order, each with \<open>totalAmount\<close> the double product of that ticket's price and
  quantity. Where these products are whole numbers of magnitude at most \<open>2^53\<close> they are
  exact, and the pass totals of the booking sum to the sum of price times quantity over
  its tickets. The stored \<open>totalAmount\<close> is the value the client sent: a request that
  is persisted is persisted as well with any other number in that place, whatever its
  tickets.
\<close>

theorem my_passes_expansion:
  "(\<forall>h token decoded c.
      prefix ''Bearer '' h \<and> bearer_token h = Some token \<and>
      jwt_verify L token (JWT_SECRET_A L) (Date_now r) = Some decoded \<and>
      map_of decoded ''userId'' = Some uid \<and> cast_ObjectId L uid = Some c \<longrightarrow>
      my_passes_A L r (Some h) w =
        (w, ok (PassList (passes_of (filter (\<lambda>b. b_userId b = c) (bookings w)))))) \<and>
   (\<forall>h token secret decoded c.
      prefix ''Bearer '' h \<and> bearer_token h = Some token \<and>
      env_JWT_SECRET L = Some secret \<and> secret \<noteq> [] \<and>
      jwt_verify L token secret (Date_now r) = Some decoded \<and>
      map_of decoded ''id'' = Some uid \<and> cast_ObjectId L uid = Some c \<longrightarrow>
      my_passes_B L r (Some h) w =
        (w, ok (PassList (passes_of (filter (\<lambda>b. b_userId b = c) (bookings w)))))) \<and>
   passes_of [] = [] \<and>
   passes_of (b # bs) = booking_passes b @ passes_of bs \<and>
   length (booking_passes b) = length (b_tickets b) \<and>
   map p_totalAmount (booking_passes b) =
     map (\<lambda>t. Number_times (t_price t) (t_quantity t)) (b_tickets b) \<and>
   (\<forall>vs. those (map exact_total (b_tickets b)) = Some vs \<longrightarrow>
      map p_totalAmount (booking_passes b) = map Fin vs \<and>
      pass_total_sum (booking_passes b) = Some (sum_list vs)) \<and>
   (\<forall>req fd stored T.
      formData req = Some fd \<and> T \<noteq> NaN \<and>
      fst (verify_payment_A L r req w) = w\<lparr>bookings := bookings w @ [stored]\<rparr> \<longrightarrow>
      fd_totalAmount fd = Some (b_totalAmount stored) \<and>
      verify_payment_A L r (req\<lparr>formData := Some (fd\<lparr>fd_totalAmount := Some T\<rparr>)\<rparr>) w =
        (w\<lparr>bookings := bookings w @ [stored\<lparr>b_totalAmount := T\<rparr>]\<rparr>,
         ok (BookingBody (stored\<lparr>b_totalAmount := T\<rparr>)))) \<and>
   (\<forall>req fd stored T.
      formData req = Some fd \<and> T \<noteq> NaN \<and>
      fst (verify_payment_B L r req w) = w\<lparr>bookings := bookings w @ [stored]\<rparr> \<longrightarrow>
      fd_totalAmount fd = Some (b_totalAmount stored) \<and>
      verify_payment_B L r (req\<lparr>formData := Some (fd\<lparr>fd_totalAmount := Some T\<rparr>)\<rparr>) w =
        (w\<lparr>bookings := bookings w @ [stored\<lparr>b_totalAmount := T\<rparr>]\<rparr>,
         ok (BookingBody (stored\<lparr>b_totalAmount := T\<rparr>))))"
proof (intro conjI allI impI)
  fix h token decoded c
  assume a: "prefix ''Bearer '' h \<and> bearer_token h = Some token \<and>
      jwt_verify L token (JWT_SECRET_A L) (Date_now r) = Some decoded \<and>
      map_of decoded ''userId'' = Some uid \<and> cast_ObjectId L uid = Some c"
  then have "h \<noteq> []" by auto
  with a show "my_passes_A L r (Some h) w =
        (w, ok (PassList (passes_of (filter (\<lambda>b. b_userId b = c) (bookings w)))))"
    by (simp add: my_passes_A_def Booking_find_def)
next
  fix h token secret decoded c
  assume a: "prefix ''Bearer '' h \<and> bearer_token h = Some token \<and>
      env_JWT_SECRET L = Some secret \<and> secret \<noteq> [] \<and>
      jwt_verify L token secret (Date_now r) = Some decoded \<and>
      map_of decoded ''id'' = Some uid \<and> cast_ObjectId L uid = Some c"
  then have "h \<noteq> []" by auto
  with a show "my_passes_B L r (Some h) w =
        (w, ok (PassList (passes_of (filter (\<lambda>b. b_userId b = c) (bookings w)))))"
    by (simp add: my_passes_B_def auth_def Booking_find_def)
next
  show "passes_of [] = []" by (simp add: passes_of_def)
next
  show "passes_of (b # bs) = booking_passes b @ passes_of bs"
    by (simp add: passes_of_def)
next
  show "length (booking_passes b) = length (b_tickets b)"
    by (simp add: booking_passes_def)
next
  show "map p_totalAmount (booking_passes b) =
     map (\<lambda>t. Number_times (t_price t) (t_quantity t)) (b_tickets b)"
    by (rule booking_passes_totals)
next
  fix vs
  assume "those (map exact_total (b_tickets b)) = Some vs"
  then show "map p_totalAmount (booking_passes b) = map Fin vs"
    using exact_totals_times by (simp only: booking_passes_totals)
next
  fix vs
  assume "those (map exact_total (b_tickets b)) = Some vs"
  then show "pass_total_sum (booking_passes b) = Some (sum_list vs)"
    by (rule pass_total_sum_exact)
next
  fix req fd stored T
  assume "formData req = Some fd \<and> T \<noteq> NaN \<and>
      fst (verify_payment_A L r req w) = w\<lparr>bookings := bookings w @ [stored]\<rparr>"
  then show "fd_totalAmount fd = Some (b_totalAmount stored)"
    using verify_payment_A_any_totalAmount by blast
next
  fix req fd stored T
  assume "formData req = Some fd \<and> T \<noteq> NaN \<and>
      fst (verify_payment_A L r req w) = w\<lparr>bookings := bookings w @ [stored]\<rparr>"
  then show "verify_payment_A L r (req\<lparr>formData := Some (fd\<lparr>fd_totalAmount := Some T\<rparr>)\<rparr>) w =
        (w\<lparr>bookings := bookings w @ [stored\<lparr>b_totalAmount := T\<rparr>]\<rparr>,
         ok (BookingBody (stored\<lparr>b_totalAmount := T\<rparr>)))"
    using verify_payment_A_any_totalAmount by blast
next
  fix req fd stored T
  assume "formData req = Some fd \<and> T \<noteq> NaN \<and>
      fst (verify_payment_B L r req w) = w\<lparr>bookings := bookings w @ [stored]\<rparr>"
  then show "fd_totalAmount fd = Some (b_totalAmount stored)"
    using verify_payment_B_any_totalAmount by blast
next
  fix req fd stored T
  assume "formData req = Some fd \<and> T \<noteq> NaN \<and>
      fst (verify_payment_B L r req w) = w\<lparr>bookings := bookings w @ [stored]\<rparr>"
  then show "verify_payment_B L r (req\<lparr>formData := Some (fd\<lparr>fd_totalAmount := Some T\<rparr>)\<rparr>) w =
        (w\<lparr>bookings := bookings w @ [stored\<lparr>b_totalAmount := T\<rparr>]\<rparr>,
         ok (BookingBody (stored\<lparr>b_totalAmount := T\<rparr>)))"
    using verify_payment_B_any_totalAmount by blast
qed

text \<open>
  The theorem at a store holding two users' bookings, one of them with two ticket
  lines (two at 500, one at 900).
\<close>

theorem my_passes_expansion_witness:
  "prefix ''Bearer '' ''Bearer userId.65F0A1B2C3D4E5F6A7B8C9AA'' \<and>
   jwt_verify sample_lib ''userId.65F0A1B2C3D4E5F6A7B8C9AA'' (JWT_SECRET_A sample_lib)
       (Date_now sample_io) = Some [(''userId'', ''65F0A1B2C3D4E5F6A7B8C9AA'')] \<and>
   jwt_verify sample_lib ''id.65F0A1B2C3D4E5F6A7B8C9AA'' ''jwt_test_secret''
       (Date_now sample_io) = Some [(''id'', ''65F0A1B2C3D4E5F6A7B8C9AA'')] \<and>
   cast_ObjectId sample_lib ''65F0A1B2C3D4E5F6A7B8C9AA'' = Some ''65f0a1b2c3d4e5f6a7b8c9aa'' \<and>
   my_passes_A sample_lib sample_io (Some ''Bearer userId.65F0A1B2C3D4E5F6A7B8C9AA'')
       (sample_world\<lparr>bookings := [sample_booking2, sample_booking]\<rparr>) =
     (sample_world\<lparr>bookings := [sample_booking2, sample_booking]\<rparr>,
      ok (PassList [sample_pass STAG 2 1000, sample_pass COUPLE 1 900])) \<and>
   my_passes_B sample_lib sample_io (Some ''Bearer id.65F0A1B2C3D4E5F6A7B8C9AA'')
       (sample_world\<lparr>bookings := [sample_booking2, sample_booking]\<rparr>) =
     (sample_world\<lparr>bookings := [sample_booking2, sample_booking]\<rparr>,
      ok (PassList [sample_pass STAG 2 1000, sample_pass COUPLE 1 900])) \<and>
   length (booking_passes sample_booking) = length (b_tickets sample_booking) \<and>
   length (b_tickets sample_booking) = 2 \<and>
   those (map exact_total (b_tickets sample_booking)) = Some [1000, 900] \<and>
   map p_totalAmount (booking_passes sample_booking) = map Fin [1000, 900] \<and>
   pass_total_sum (booking_passes sample_booking) = Some (sum_list [1000, 900]) \<and>
   formData sample_verify = Some sample_form \<and> Fin 1900 \<noteq> NaN \<and>
   fst (verify_payment_A sample_lib sample_io sample_verify
          (sample_world\<lparr>bookings := [sample_booking2]\<rparr>)) =
     sample_world\<lparr>bookings := [sample_booking2, sample_booking]\<rparr> \<and>
   fst (verify_payment_B sample_lib sample_io sample_verify
          (sample_world\<lparr>bookings := [sample_booking2]\<rparr>)) =
     sample_world\<lparr>bookings := [sample_booking2, sample_booking]\<rparr> \<and>
   fd_totalAmount sample_form = Some (b_totalAmount sample_booking) \<and>
   fst (verify_payment_A sample_lib sample_io
          (sample_verify\<lparr>formData := Some (sample_form\<lparr>fd_totalAmount := Some (Fin 1900)\<rparr>)\<rparr>)
          (sample_world\<lparr>bookings := [sample_booking2]\<rparr>)) =
     sample_world\<lparr>bookings := [sample_booking2, sample_booking\<lparr>b_totalAmount := Fin 1900\<rparr>]\<rparr> \<and>
   fst (verify_payment_B sample_lib sample_io
          (sample_verify\<lparr>formData := Some (sample_form\<lparr>fd_totalAmount := Some (Fin 1900)\<rparr>)\<rparr>)
          (sample_world\<lparr>bookings := [sample_booking2]\<rparr>)) =
     sample_world\<lparr>bookings := [sample_booking2, sample_booking\<lparr>b_totalAmount := Fin 1900\<rparr>]\<rparr>"
proof -
  let ?w = "sample_world\<lparr>bookings := [sample_booking2, sample_booking]\<rparr>"
  note inst = my_passes_expansion
    [of sample_lib sample_io "''65F0A1B2C3D4E5F6A7B8C9AA''" ?w sample_booking "[]"]
  have pre: "prefix ''Bearer '' ''Bearer userId.65F0A1B2C3D4E5F6A7B8C9AA''"
    "prefix ''Bearer '' ''Bearer id.65F0A1B2C3D4E5F6A7B8C9AA''"
    by simp_all
  have tickets: "those (map exact_total (b_tickets sample_booking)) = Some [1000, 900]"
    "length (b_tickets sample_booking) = 2"
    by (simp_all add: exact_total_def sample_booking_def)
  let ?w1 = "sample_world\<lparr>bookings := [sample_booking2]\<rparr>"
  note stored = my_passes_expansion
    [of sample_lib sample_io "''65F0A1B2C3D4E5F6A7B8C9AA''" ?w1 sample_booking "[]"]
  have fd: "formData sample_verify = Some sample_form"
    by (simp add: sample_verify_def)
  have savedA: "fst (verify_payment_A sample_lib sample_io sample_verify ?w1) =
      ?w1\<lparr>bookings := bookings ?w1 @ [sample_booking]\<rparr>"
    and savedB: "fst (verify_payment_B sample_lib sample_io sample_verify ?w1) =
      ?w1\<lparr>bookings := bookings ?w1 @ [sample_booking]\<rparr>"
    by (simp_all add: sample_verify_defs sample_booking2_def)
  have sentA: "fd_totalAmount sample_form = Some (b_totalAmount sample_booking)"
    and changedA: "verify_payment_A sample_lib sample_io
        (sample_verify\<lparr>formData := Some (sample_form\<lparr>fd_totalAmount := Some (Fin 1900)\<rparr>)\<rparr>) ?w1 =
      (?w1\<lparr>bookings := bookings ?w1 @ [sample_booking\<lparr>b_totalAmount := Fin 1900\<rparr>]\<rparr>,
       ok (BookingBody (sample_booking\<lparr>b_totalAmount := Fin 1900\<rparr>)))"
    using stored fd savedA by blast+
  have changedB: "verify_payment_B sample_lib sample_io
        (sample_verify\<lparr>formData := Some (sample_form\<lparr>fd_totalAmount := Some (Fin 1900)\<rparr>)\<rparr>) ?w1 =
      (?w1\<lparr>bookings := bookings ?w1 @ [sample_booking\<lparr>b_totalAmount := Fin 1900\<rparr>]\<rparr>,
       ok (BookingBody (sample_booking\<lparr>b_totalAmount := Fin 1900\<rparr>)))"
    using stored fd savedB by blast
  have A: "my_passes_A sample_lib sample_io (Some ''Bearer userId.65F0A1B2C3D4E5F6A7B8C9AA'') ?w =
     (?w, ok (PassList [sample_pass STAG 2 1000, sample_pass COUPLE 1 900]))"
    using inst pre(1) sample_bearer_userId sample_jwt_verify(1) sample_cast_ObjectId
    by (simp add: passes_of_def sample_userIds sample_passes)
  have B: "my_passes_B sample_lib sample_io (Some ''Bearer id.65F0A1B2C3D4E5F6A7B8C9AA'') ?w =
     (?w, ok (PassList [sample_pass STAG 2 1000, sample_pass COUPLE 1 900]))"
    using inst pre(2) sample_bearer_id sample_jwt_verify(2,3) sample_cast_ObjectId
    by (simp add: passes_of_def sample_userIds sample_passes)
  have totals: "map p_totalAmount (booking_passes sample_booking) = map Fin [1000, 900]"
    "pass_total_sum (booking_passes sample_booking) = Some (sum_list [1000, 900])"
    "length (booking_passes sample_booking) = length (b_tickets sample_booking)"
    using inst tickets(1) by blast+
  show ?thesis
    using pre(1) sample_jwt_verify(1,2) sample_cast_ObjectId A B totals tickets fd
      savedA savedB sentA changedA changedB
    by (simp add: sample_world_def)
qed

text \<open>
  Claim C3 as stated fails. A verified request whose form says \<open>totalAmount = 1\<close> for
  two tickets at 500 and one at 900 is persisted as sent, and the passes listed for it
  sum to 1900. And a pass total is a rounded product: for price and quantity 94906267
  it is 9007199515875288, one less than the product.
\<close>

theorem my_passes_total_counterexample:
  "verify_payment_A sample_lib sample_io sample_verify sample_world =
     (sample_world\<lparr>bookings := [sample_booking]\<rparr>, ok (BookingBody sample_booking)) \<and>
   my_passes_A sample_lib sample_io (Some ''Bearer userId.65F0A1B2C3D4E5F6A7B8C9AA'')
       (sample_world\<lparr>bookings := [sample_booking]\<rparr>) =
     (sample_world\<lparr>bookings := [sample_booking]\<rparr>,
      ok (PassList [sample_pass STAG 2 1000, sample_pass COUPLE 1 900])) \<and>
   pass_total_sum [sample_pass STAG 2 1000, sample_pass COUPLE 1 900] = Some 1900 \<and>
   b_totalAmount sample_booking = Fin 1 \<and>
   Fin 1900 \<noteq> b_totalAmount sample_booking \<and>
   map p_totalAmount
     (booking_passes
        (sample_booking\<lparr>b_tickets := [\<lparr>t_type = STAG, t_quantity = Fin 94906267,
                                          t_price = Fin 94906267\<rparr>]\<rparr>)) =
     [Fin 9007199515875288] \<and>
   (94906267 * 94906267 :: rat) = 9007199515875289"
proof -
  have "verify_payment_A sample_lib sample_io sample_verify sample_world =
     (sample_world\<lparr>bookings := [sample_booking]\<rparr>, ok (BookingBody sample_booking))"
    by (simp add: sample_verify_defs)
  moreover have "my_passes_A sample_lib sample_io (Some ''Bearer userId.65F0A1B2C3D4E5F6A7B8C9AA'')
       (sample_world\<lparr>bookings := [sample_booking]\<rparr>) =
     (sample_world\<lparr>bookings := [sample_booking]\<rparr>,
      ok (PassList [sample_pass STAG 2 1000, sample_pass COUPLE 1 900]))"
    using sample_bearer_userId sample_jwt_verify(1) sample_cast_ObjectId
    by (simp add: my_passes_A_def Booking_find_def passes_of_def sample_userIds sample_passes)
  moreover have "pass_total_sum [sample_pass STAG 2 1000, sample_pass COUPLE 1 900] = Some 1900"
    by (simp add: pass_total_sum_def sample_pass_def)
  moreover have "b_totalAmount sample_booking = Fin 1" "Fin 1900 \<noteq> b_totalAmount sample_booking"
    by (simp_all add: sample_booking_def)
  moreover have "map p_totalAmount
     (booking_passes
        (sample_booking\<lparr>b_tickets := [\<lparr>t_type = STAG, t_quantity = Fin 94906267,
                                          t_price = Fin 94906267\<rparr>]\<rparr>)) =
     [Fin 9007199515875288]"
    by (simp add: booking_passes_def sample_product_large)
  moreover have "(94906267 * 94906267 :: rat) = 9007199515875289" by simp
  ultimately show ?thesis by blast
qed

text \<open>
  Claim C4, as amended. A request to list passes whose \<open>Authorization\<close> header is
  absent or does not begin with \<open>Bearer \<close> is answered 401 with a message and no passes,
  the state unchanged; so is a request whose header begins with \<open>Bearer \<close> and whose
  token is rejected by \<open>jwt.verify\<close>. The token is the text between that first space
  and the next one: what follows a second space is ignored, so a header with trailing
  text is answered as the header without it.
\<close>

theorem my_passes_unauthorized:
  "((authHeader = None \<or> (\<exists>h. authHeader = Some h \<and> \<not> prefix ''Bearer '' h)) \<longrightarrow>
      my_passes_A L r authHeader w = (w, fail 401 ''No token, authorization denied'') \<and>
      my_passes_B L r authHeader w = (w, fail 401 ''No token, authorization denied'')) \<and>
   (\<forall>h token. authHeader = Some h \<and> prefix ''Bearer '' h \<and> bearer_token h = Some token \<longrightarrow>
      (jwt_verify L token (JWT_SECRET_A L) (Date_now r) = None \<longrightarrow>
         my_passes_A L r authHeader w = (w, fail 401 ''Token is not valid'')) \<and>
      ((\<forall>secret. env_JWT_SECRET L = Some secret \<longrightarrow>
                 jwt_verify L token secret (Date_now r) = None) \<longrightarrow>
         my_passes_B L r authHeader w = (w, fail 401 ''Invalid token''))) \<and>
   (\<forall>h. prefix ''Bearer '' h \<longrightarrow>
      bearer_token h = Some (takeWhile (\<lambda>c. c \<noteq> CHR '' '') (drop 7 h))) \<and>
   (\<forall>token rest. list_all (\<lambda>c. c \<noteq> CHR '' '') token \<longrightarrow>
      my_passes_A L r (Some (''Bearer '' @ token @ CHR '' '' # rest)) w =
        my_passes_A L r (Some (''Bearer '' @ token)) w \<and>
      my_passes_B L r (Some (''Bearer '' @ token @ CHR '' '' # rest)) w =
        my_passes_B L r (Some (''Bearer '' @ token)) w)"
proof (intro conjI impI allI)
  assume "authHeader = None \<or> (\<exists>h. authHeader = Some h \<and> \<not> prefix ''Bearer '' h)"
  then show "my_passes_A L r authHeader w = (w, fail 401 ''No token, authorization denied'')"
    by (auto simp: my_passes_A_def)
next
  assume "authHeader = None \<or> (\<exists>h. authHeader = Some h \<and> \<not> prefix ''Bearer '' h)"
  then show "my_passes_B L r authHeader w = (w, fail 401 ''No token, authorization denied'')"
    by (auto simp: my_passes_B_def auth_def)
next
  fix h token
  assume hdr: "authHeader = Some h \<and> prefix ''Bearer '' h \<and> bearer_token h = Some token"
    and bad: "jwt_verify L token (JWT_SECRET_A L) (Date_now r) = None"
  from hdr have "h \<noteq> []" by auto
  with hdr bad show "my_passes_A L r authHeader w = (w, fail 401 ''Token is not valid'')"
    by (simp add: my_passes_A_def)
next
  fix h token
  assume hdr: "authHeader = Some h \<and> prefix ''Bearer '' h \<and> bearer_token h = Some token"
    and bad: "\<forall>secret. env_JWT_SECRET L = Some secret \<longrightarrow>
                jwt_verify L token secret (Date_now r) = None"
  from hdr have "h \<noteq> []" by auto
  with hdr bad show "my_passes_B L r authHeader w = (w, fail 401 ''Invalid token'')"
    by (simp add: my_passes_B_def auth_def split: option.splits)
next
  fix h
  assume "prefix ''Bearer '' h"
  then show "bearer_token h = Some (takeWhile (\<lambda>c. c \<noteq> CHR '' '') (drop 7 h))"
    by (rule bearer_token_of_prefix)
next
  fix token rest
  assume "list_all (\<lambda>c. c \<noteq> CHR '' '') token"
  then show "my_passes_A L r (Some (''Bearer '' @ token @ CHR '' '' # rest)) w =
        my_passes_A L r (Some (''Bearer '' @ token)) w"
    using bearer_token_trailing [of token rest] bearer_token_alone [of token]
    by (simp add: my_passes_A_def)
next
  fix token rest
  assume "list_all (\<lambda>c. c \<noteq> CHR '' '') token"
  then show "my_passes_B L r (Some (''Bearer '' @ token @ CHR '' '' # rest)) w =
        my_passes_B L r (Some (''Bearer '' @ token)) w"
    using bearer_token_trailing [of token rest] bearer_token_alone [of token]
    by (simp add: my_passes_B_def auth_def)
qed

text \<open>
  The theorem at no header, at a \<open>Basic\<close> header, at a token that does not verify,
  and at that token followed by more text.
\<close>

theorem my_passes_unauthorized_witness:
  "my_passes_A sample_lib sample_io None sample_world =
     (sample_world, \<lparr>status = 401, body = Message ''No token, authorization denied''\<rparr>) \<and>
   my_passes_B sample_lib sample_io None sample_world =
     (sample_world, \<lparr>status = 401, body = Message ''No token, authorization denied''\<rparr>) \<and>
   \<not> prefix ''Bearer '' ''Basic dXNlcjpwYXNz'' \<and>
   my_passes_A sample_lib sample_io (Some ''Basic dXNlcjpwYXNz'') sample_world =
     (sample_world, \<lparr>status = 401, body = Message ''No token, authorization denied''\<rparr>) \<and>
   my_passes_B sample_lib sample_io (Some ''Basic dXNlcjpwYXNz'') sample_world =
     (sample_world, \<lparr>status = 401, body = Message ''No token, authorization denied''\<rparr>) \<and>
   prefix ''Bearer '' ''Bearer not.a.token'' \<and>
   bearer_token ''Bearer not.a.token'' = Some ''not.a.token'' \<and>
   jwt_verify sample_lib ''not.a.token'' (JWT_SECRET_A sample_lib) (Date_now sample_io) = None \<and>
   jwt_verify sample_lib ''not.a.token'' ''jwt_test_secret'' (Date_now sample_io) = None \<and>
   my_passes_A sample_lib sample_io (Some ''Bearer not.a.token'') sample_world =
     (sample_world, \<lparr>status = 401, body = Message ''Token is not valid''\<rparr>) \<and>
   my_passes_B sample_lib sample_io (Some ''Bearer not.a.token'') sample_world =
     (sample_world, \<lparr>status = 401, body = Message ''Invalid token''\<rparr>) \<and>
   list_all (\<lambda>c. c \<noteq> CHR '' '') ''not.a.token'' \<and>
   my_passes_A sample_lib sample_io (Some (''Bearer '' @ ''not.a.token'' @ CHR '' '' # ''x y''))
       sample_world =
     (sample_world, \<lparr>status = 401, body = Message ''Token is not valid''\<rparr>) \<and>
   my_passes_B sample_lib sample_io (Some (''Bearer '' @ ''not.a.token'' @ CHR '' '' # ''x y''))
       sample_world =
     (sample_world, \<lparr>status = 401, body = Message ''Invalid token''\<rparr>)"
proof -
  note none = my_passes_unauthorized [of None sample_lib sample_io sample_world]
  note basic = my_passes_unauthorized
    [of "Some ''Basic dXNlcjpwYXNz''" sample_lib sample_io sample_world]
  note bearer = my_passes_unauthorized
    [of "Some ''Bearer not.a.token''" sample_lib sample_io sample_world]
  have rejected:
    "jwt_verify sample_lib ''not.a.token'' (JWT_SECRET_A sample_lib) (Date_now sample_io) = None"
    "jwt_verify sample_lib ''not.a.token'' ''jwt_test_secret'' (Date_now sample_io) = None"
    "env_JWT_SECRET sample_lib = Some ''jwt_test_secret''"
    by (simp_all add: sample_lib_def)
  have plain: "list_all (\<lambda>c. c \<noteq> CHR '' '') ''not.a.token''" by simp
  have A0: "my_passes_A sample_lib sample_io None sample_world =
      (sample_world, fail 401 ''No token, authorization denied'')"
    and B0: "my_passes_B sample_lib sample_io None sample_world =
      (sample_world, fail 401 ''No token, authorization denied'')"
    using none by simp_all
  have A1: "my_passes_A sample_lib sample_io (Some ''Basic dXNlcjpwYXNz'') sample_world =
      (sample_world, fail 401 ''No token, authorization denied'')"
    and B1: "my_passes_B sample_lib sample_io (Some ''Basic dXNlcjpwYXNz'') sample_world =
      (sample_world, fail 401 ''No token, authorization denied'')"
    using basic by simp_all
  have A2: "my_passes_A sample_lib sample_io (Some ''Bearer not.a.token'') sample_world =
      (sample_world, fail 401 ''Token is not valid'')"
    using bearer sample_bearer_token rejected(1) by simp
  have B2: "my_passes_B sample_lib sample_io (Some ''Bearer not.a.token'') sample_world =
      (sample_world, fail 401 ''Invalid token'')"
    using bearer sample_bearer_token rejected(2,3) by simp
  have A3: "my_passes_A sample_lib sample_io
        (Some (''Bearer '' @ ''not.a.token'' @ CHR '' '' # ''x y'')) sample_world =
      my_passes_A sample_lib sample_io (Some (''Bearer '' @ ''not.a.token'')) sample_world"
    and B3: "my_passes_B sample_lib sample_io
        (Some (''Bearer '' @ ''not.a.token'' @ CHR '' '' # ''x y'')) sample_world =
      my_passes_B sample_lib sample_io (Some (''Bearer '' @ ''not.a.token'')) sample_world"
    using bearer plain by blast+
  show ?thesis
    using A0 B0 A1 B1 A2 B2 A3 B3 sample_bearer_token rejected(1,2)
    by (simp add: fail_def)
qed

text \<open>
  Claim C4 as stated fails: a header that is a valid token followed by a space and
  more text is not of the form \<open>Bearer <token>\<close>, and both variants answer it 200 with
  the user's passes.
\<close>

theorem my_passes_trailing_text_counterexample:
  "\<not> Bearer_form ''Bearer userId.65F0A1B2C3D4E5F6A7B8C9AA trailing garbage'' \<and>
   my_passes_A sample_lib sample_io
       (Some ''Bearer userId.65F0A1B2C3D4E5F6A7B8C9AA trailing garbage'')
       (sample_world\<lparr>bookings := [sample_booking]\<rparr>) =
     (sample_world\<lparr>bookings := [sample_booking]\<rparr>,
      \<lparr>status = 200, body = PassList [sample_pass STAG 2 1000, sample_pass COUPLE 1 900]\<rparr>) \<and>
   \<not> Bearer_form ''Bearer id.65F0A1B2C3D4E5F6A7B8C9AA trailing garbage'' \<and>
   my_passes_B sample_lib sample_io
       (Some ''Bearer id.65F0A1B2C3D4E5F6A7B8C9AA trailing garbage'')
       (sample_world\<lparr>bookings := [sample_booking]\<rparr>) =
     (sample_world\<lparr>bookings := [sample_booking]\<rparr>,
      \<lparr>status = 200, body = PassList [sample_pass STAG 2 1000, sample_pass COUPLE 1 900]\<rparr>)"
  using sample_bearer_trailing sample_jwt_verify sample_cast_ObjectId
  by (simp add: Bearer_form_def my_passes_A_def my_passes_B_def auth_def Booking_find_def
      passes_of_def sample_userIds sample_passes ok_def)

subsection \<open>Registration and login\<close>

text \<open>
  With a password that is a string, the two failures of a login look the same.
\<close>

lemma login_failures_same_for_string_passwords:
  assumes "User_findOne (l_email unknown) w = None"
    and "User_findOne (l_email known) w = Some u"
    and "l_password known = Some password"
    and "\<not> bcrypt_compare L password (u_password u)"
  shows "login_A L r unknown w = (w, fail 400 ''Invalid email or password'') \<and>
         login_A L r' known w = (w, fail 400 ''Invalid email or password'') \<and>
         login_B L r unknown w = (w, fail 400 ''Invalid credentials'') \<and>
         login_B L r' known w = (w, fail 400 ''Invalid credentials'')"
  using assms by (simp add: login_A_def login_B_def)

text \<open>
  Claim C5 fails where the body has no password that is a string: for a stored email
  \<open>bcrypt.compare\<close> rejects and the handler answers 500 "Server error", for an unknown
  email it has answered 400 before. The two answers tell whether the email is
  registered.
\<close>

theorem login_without_password_tells_known_email:
  "login_A sample_lib sample_io \<lparr>l_email = ''asha@example.com'', l_password = None\<rparr>
       (sample_world\<lparr>users := [sample_user]\<rparr>) =
     (sample_world\<lparr>users := [sample_user]\<rparr>, \<lparr>status = 500, body = Message ''Server error''\<rparr>) \<and>
   login_A sample_lib sample_io \<lparr>l_email = ''nobody@example.com'', l_password = None\<rparr>
       (sample_world\<lparr>users := [sample_user]\<rparr>) =
     (sample_world\<lparr>users := [sample_user]\<rparr>,
      \<lparr>status = 400, body = Message ''Invalid email or password''\<rparr>) \<and>
   login_B sample_lib sample_io \<lparr>l_email = ''asha@example.com'', l_password = None\<rparr>
       (sample_world\<lparr>users := [sample_user]\<rparr>) =
     (sample_world\<lparr>users := [sample_user]\<rparr>, \<lparr>status = 500, body = Message ''Server error''\<rparr>) \<and>
   login_B sample_lib sample_io \<lparr>l_email = ''nobody@example.com'', l_password = None\<rparr>
       (sample_world\<lparr>users := [sample_user]\<rparr>) =
     (sample_world\<lparr>users := [sample_user]\<rparr>,
      \<lparr>status = 400, body = Message ''Invalid credentials''\<rparr>)"
  by (simp add: login_A_def login_B_def User_findOne_def fail_def sample_world_def
      sample_user_def)

text \<open>
  Variant A answers a registration with the four fields it names; the password is not
  among them. Variant B answers with the stored document, password hash included.
\<close>

lemma register_A_omits_password:
  assumes "register_A L r req w = (w', \<lparr>status = c, body = AuthBody token profile\<rparr>)"
  shows "map_of profile ''password'' = None"
  using assms
  by (auto simp: register_A_def Let_def ok_def fail_def split: option.splits)

lemma register_B_profile_has_password:
  assumes "register_B L r req w = (w', \<lparr>status = 201, body = AuthBody token profile\<rparr>)"
  shows "map_of profile ''password'' = Some (bcrypt_hash L (r_password req) 10 (salt r))"
  using assms
  by (auto simp: register_B_def Let_def fail_def user_toJSON_def split: option.splits if_splits)

text \<open>
  Claim C6 fails in variant B: the response to the registration below carries the
  stored \<open>password\<close> path, the hash, in its \<open>user\<close> object.
\<close>

theorem register_B_returns_password_hash:
  "register_B sample_lib sample_io sample_register sample_world =
     (sample_world\<lparr>users := [sample_user]\<rparr>,
      \<lparr>status = 201,
       body = AuthBody ''id.65f0a1b2c3d4e5f6a7b8c9d0''
                [(''_id'', ''65f0a1b2c3d4e5f6a7b8c9d0''), (''name'', ''Asha''),
                 (''email'', ''asha@example.com''), (''phone'', ''9800000000''),
                 (''password'', ''$2a$10$N9qo8uLOickgx2ZMRZoMye2retnuh''),
                 (''__v'', ''0'')]\<rparr>)"
  by (simp add: register_B_def User_findOne_def User_save_def user_toJSON_def
      sample_lib_def sample_io_def sample_register_def sample_world_def sample_user_def Let_def)

text \<open>
  Claim C7. A registration whose email is already stored fails with status 400 and the
  variant's conflict message, and the state is unchanged.
\<close>

theorem register_duplicate_email_conflict:
  assumes "u \<in> set (users w)" and "u_email u = r_email req"
  shows "register_A L r req w = (w, fail 400 ''Email already in use'') \<and>
         register_B L r req w = (w, fail 400 ''User already exists'')"
proof -
  obtain existing where "User_findOne (r_email req) w = Some existing"
    using findOne_registered [OF assms] by blast
  then show ?thesis
    by (simp add: register_A_def register_B_def)
qed

text \<open>
  The theorem at a store that already holds the email.
\<close>

theorem register_duplicate_email_conflict_witness:
  "sample_user \<in> set (users (sample_world\<lparr>users := [sample_user]\<rparr>)) \<and>
   u_email sample_user = r_email sample_register \<and>
   register_A sample_lib sample_io sample_register (sample_world\<lparr>users := [sample_user]\<rparr>) =
     (\<lparr>users = [sample_user], bookings = [], submitted = []\<rparr>,
      \<lparr>status = 400, body = Message ''Email already in use''\<rparr>) \<and>
   register_B sample_lib sample_io sample_register (sample_world\<lparr>users := [sample_user]\<rparr>) =
     (\<lparr>users = [sample_user], bookings = [], submitted = []\<rparr>,
      \<lparr>status = 400, body = Message ''User already exists''\<rparr>)"
  using register_duplicate_email_conflict
    [of sample_user "sample_world\<lparr>users := [sample_user]\<rparr>" sample_register sample_lib sample_io]
  by (simp add: sample_world_def sample_user_def sample_register_def fail_def)



subsection \<open>Order creation\<close>

text \<open>
  What the order handler does hold to, for every amount: one order is submitted, its
  amount is the double product \<open>amount * 100\<close>, its currency is \<open>INR\<close>, and the response
  carries the id, amount and currency of the order the gateway answers with.
\<close>

lemma create_order_submits:
  "\<exists>options.
     fst (create_order gw r a w) = w\<lparr>submitted := submitted w @ [options]\<rparr> \<and>
     o_amount options = Number_times a (Fin 100) \<and> o_currency options = ''INR'' \<and>
     (\<forall>order. gw options = Some order \<longrightarrow>
        snd (create_order gw r a w) =
          ok (OrderBody (g_id order) (g_amount order) (g_currency order)))"
proof -
  let ?options = "\<lparr>o_amount = Number_times a (Fin 100), o_currency = ''INR'',
                   o_receipt = ''receipt_'' @ dec (Date_now r), o_payment_capture = 1\<rparr>"
  have "fst (create_order gw r a w) = w\<lparr>submitted := submitted w @ [?options]\<rparr>"
    by (simp add: create_order_def Let_def split: option.splits)
  moreover have "gw ?options = Some order \<Longrightarrow>
      snd (create_order gw r a w) =
        ok (OrderBody (g_id order) (g_amount order) (g_currency order))" for order
    by (simp add: create_order_def Let_def)
  ultimately show ?thesis
    by (intro exI[of _ ?options]) simp
qed

text \<open>
  An amount in whole rupees up to \<open>2^53 / 100\<close> is converted exactly.
\<close>

lemma create_order_whole_amount:
  assumes "\<bar>n * 100\<bar> \<le> 2 ^ 53"
  shows "map o_amount (submitted (fst (create_order gw r (Fin (of_int n)) w))) =
           map o_amount (submitted w) @ [Fin (of_int (n * 100))]"
proof -
  have "Number_times (Fin (of_int n)) (Fin 100) = Fin (of_int n * 100)"
    using assms by (intro Number_times_whole [of "n * 100"]) simp_all
  then show ?thesis
    by (simp add: create_order_def Let_def split: option.splits)
qed

text \<open>
  Claim C9 fails at the amount 19.99: the product is rounded to a double, and what is
  submitted is 1998.9999999999998 (\<open>1999 - 2^-42\<close>), which is neither the amount times
  100 nor a whole number of paise.
\<close>

theorem create_order_submits_fraction_of_paisa:
  "create_order sample_gateway sample_io sample_amount sample_world =
     (sample_world\<lparr>submitted :=
        [\<lparr>o_amount = Fin (8791694975696895 / 4398046511104), o_currency = ''INR'',
          o_receipt = ''receipt_1700'', o_payment_capture = 1\<rparr>]\<rparr>,
      \<lparr>status = 200,
       body = OrderBody ''order_receipt_1700'' (Fin (8791694975696895 / 4398046511104)) ''INR''\<rparr>) \<and>
   sample_amount = Fin (5626684784446013 / 281474976710656) \<and>
   (5626684784446013 / 281474976710656 :: rat) * 100 \<noteq> 8791694975696895 / 4398046511104 \<and>
   (8791694975696895 / 4398046511104 :: rat) < 1999 \<and>
   (1998 :: rat) < 8791694975696895 / 4398046511104"
  by (simp add: create_order_def sample_gateway_def sample_io_def sample_world_def ok_def
      sample_amount_def sample_product_amount dec.simps)

end
